theory Spec2Isabelle
  imports Complex_Main "HOL-Library.Multiset"
begin

section \<open>PrintVault3D thumbnail scripts: a shallow embedding\<close>

text \<open>
  The development follows \<^verbatim>\<open>PythonScripts/stl_thumbnail.py\<close> and
  \<^verbatim>\<open>PythonScripts/stl_thumbnail_batch.py\<close>. Both files carry the same
  \<^verbatim>\<open>load_3mf_mesh\<close>, so it is embedded once. Libraries the scripts call
  (zipfile, ElementTree's parser, numpy-stl, matplotlib, the process pool) are outside the
  repository: what they return is read from an environment record, and every theorem
  quantifies over it.

  Coordinates are numpy floats in the scripts and real numbers here; rounding, overflow
  and NaN are not represented. The theorems on loading, results and batches do not
  depend on the arithmetic of coordinates. The one lemma that does, on normalization,
  is a statement about exact arithmetic only.
\<close>

subsection \<open>Exceptions\<close>

text \<open>
  An exception is a value: \<open>Inl e\<close> in a result of type \<open>exn + 'a\<close>. The only class
  the scripts tell apart is \<^verbatim>\<open>zipfile.BadZipFile\<close>; everything else is caught as
  \<^verbatim>\<open>Exception\<close>. The string is what \<^verbatim>\<open>str(e)\<close> returns.
\<close>

datatype exn = BadZipFile string | Exception string

fun str_of :: "exn \<Rightarrow> string" where
  "str_of (BadZipFile m) = m"
| "str_of (Exception m) = m"

subsection \<open>Strings\<close>

definition startswith :: "string \<Rightarrow> string \<Rightarrow> bool" where
  "startswith s p = (take (length p) s = p)"

definition endswith :: "string \<Rightarrow> string \<Rightarrow> bool" where
  "endswith s p = (length p \<le> length s \<and> drop (length s - length p) s = p)"

definition strip_char :: "char \<Rightarrow> string \<Rightarrow> string" where
  \<comment> \<open>\<^verbatim>\<open>s.strip(c)\<close> for a single character \<open>c\<close>\<close>
  "strip_char c s = rev (dropWhile (\<lambda>x. x = c) (rev (dropWhile (\<lambda>x. x = c) s)))"

definition digit_char :: "nat \<Rightarrow> char" where
  "digit_char d = char_of (48 + d)"

fun show_nat :: "nat \<Rightarrow> string" where
  "show_nat n = (if n < 10 then [digit_char n] else show_nat (n div 10) @ [digit_char (n mod 10)])"

definition show_int :: "int \<Rightarrow> string" where
  \<comment> \<open>\<^verbatim>\<open>str(i)\<close> of a Python int\<close>
  "show_int i = (if i < 0 then CHR ''-'' # show_nat (nat (- i)) else show_nat (nat i))"

subsection \<open>ElementTree elements\<close>

text \<open>
  An element as \<^verbatim>\<open>xml.etree.ElementTree\<close> holds it: the tag in Clark notation
  (\<^verbatim>\<open>{uri}local\<close> when the element is in a namespace), the attribute dictionary and
  the child elements in document order.
\<close>

datatype element = Element (tag: string) (attrib: "(string \<times> string) list") (children: "element list")

definition get_attr :: "element \<Rightarrow> string \<Rightarrow> string option" where
  \<comment> \<open>\<^verbatim>\<open>elem.get(key)\<close>\<close>
  "get_attr e k = map_of (attrib e) k"

definition tag_matches :: "string \<Rightarrow> string \<Rightarrow> bool" where
  \<comment> \<open>whether an element tag is selected by a one-step path. A path \<^verbatim>\<open>{*}name\<close>
      selects \<open>name\<close> in any or no namespace (Python 3.8 and later); every other path
      the loader builds is compared literally.\<close>
  "tag_matches path t =
     (if take 3 path = ''{*}'' then t = drop 3 path \<or> endswith t (drop 2 path) else t = path)"

definition et_find :: "element \<Rightarrow> string \<Rightarrow> element option" where
  \<comment> \<open>\<^verbatim>\<open>parent.find(path)\<close>: the first matching child\<close>
  "et_find parent path = List.find (\<lambda>c. tag_matches path (tag c)) (children parent)"

definition et_findall :: "element \<Rightarrow> string \<Rightarrow> element list" where
  \<comment> \<open>\<^verbatim>\<open>parent.findall(path)\<close>: all matching children, in document order\<close>
  "et_findall parent path = filter (\<lambda>c. tag_matches path (tag c)) (children parent)"

subsection \<open>Namespace probing\<close>

definition ns_microsoft :: string where
  "ns_microsoft = ''http://schemas.microsoft.com/3dmanufacturing/core/2015/02''"

definition ns_openxml :: string where
  "ns_openxml = ''http://schemas.openxmlformats.org/3dmanufacturing/core/2015/02''"

definition root_namespace :: "element \<Rightarrow> string option" where
  \<comment> \<open>\<^verbatim>\<open>ns_uri\<close>: \<^verbatim>\<open>root.tag.split('}')[0].strip('{')\<close> when the tag starts with a brace\<close>
  "root_namespace root_node =
     (if startswith (tag root_node) ''{''
      then Some (strip_char CHR ''{'' (takeWhile (\<lambda>c. c \<noteq> CHR ''}'') (tag root_node)))
      else None)"

definition possible_namespaces :: "element \<Rightarrow> string option list" where
  "possible_namespaces root_node = [root_namespace root_node, Some ns_microsoft, Some ns_openxml, None]"

definition clark :: "string \<Rightarrow> string \<Rightarrow> string" where
  \<comment> \<open>\<^verbatim>\<open>f'{{{ns}}}{tag}'\<close>\<close>
  "clark ns t = ''{'' @ ns @ ''}'' @ t"

definition qualify :: "string option \<Rightarrow> string \<Rightarrow> string" where
  \<comment> \<open>the path tried for one candidate: \<^verbatim>\<open>if ns\<close> is false for \<^verbatim>\<open>None\<close> and
      for the empty string\<close>
  "qualify ns t =
     (case ns of
        None \<Rightarrow> t
      | Some u \<Rightarrow> if u = [] then t else clark u t)"

fun find_element :: "element \<Rightarrow> string \<Rightarrow> string option list \<Rightarrow> element option" where
  "find_element parent t [] = None"
| "find_element parent t (ns # namespaces) =
     (case et_find parent (qualify ns t) of
        Some elem \<Rightarrow> Some elem
      | None \<Rightarrow> find_element parent t namespaces)"

fun find_all_elements :: "element \<Rightarrow> string \<Rightarrow> string option list \<Rightarrow> element list" where
  "find_all_elements parent t [] = []"
| "find_all_elements parent t (ns # namespaces) =
     (case et_findall parent (qualify ns t) of
        [] \<Rightarrow> find_all_elements parent t namespaces
      | elems \<Rightarrow> elems)"

subsection \<open>Meshes\<close>

type_synonym vertex = "real \<times> real \<times> real"
type_synonym triangle = "vertex \<times> vertex \<times> vertex"
type_synonym mesh = "triangle list"

subsection \<open>The environment\<close>

text \<open>
  \<^item> \<open>zip_open\<close>: \<^verbatim>\<open>zipfile.ZipFile(path)\<close>; on success the entries in
    \<^verbatim>\<open>namelist()\<close> order, each with what opening, reading and
    \<^verbatim>\<open>ET.fromstring\<close> yield for it.
  \<^item> \<open>py_float\<close>, \<open>py_int\<close>: the builtins \<^verbatim>\<open>float\<close> and \<^verbatim>\<open>int\<close> on a string.
  \<^item> \<open>np_index_overflow\<close>: the exception numpy raises when the face array holds an
    index outside the 64-bit range (which exception depends on the inferred dtype).
  \<^item> \<open>stl_from_file\<close>: \<^verbatim>\<open>mesh.Mesh.from_file\<close> of numpy-stl.
  \<^item> \<open>mass_volume\<close>: \<^verbatim>\<open>get_mass_properties()[0]\<close>.
  \<^item> \<open>plt_figure\<close>: creating the figure and axes for a pixel size.
  \<^item> \<open>render_save\<close>: drawing the normalized triangles, creating the output directory
    and saving the image; \<open>Some e\<close> when an exception is raised.
\<close>

record env =
  zip_open :: "string \<Rightarrow> exn + (string \<times> (exn + element)) list"
  py_float :: "string \<Rightarrow> exn + real"
  py_int :: "string \<Rightarrow> exn + int"
  np_index_overflow :: "(int \<times> int \<times> int) list \<Rightarrow> exn"
  stl_from_file :: "string \<Rightarrow> exn + mesh"
  mass_volume :: "mesh \<Rightarrow> exn + real"
  plt_figure :: "int \<Rightarrow> exn option"
  render_save :: "mesh \<Rightarrow> string \<Rightarrow> int \<Rightarrow> exn option"

subsection \<open>The 3MF loader\<close>

text \<open>The object to render: the two loops over \<^verbatim>\<open>objects\<close>.\<close>

fun first_model_object :: "string option list \<Rightarrow> element list \<Rightarrow> element option" where
  "first_model_object nss [] = None"
| "first_model_object nss (obj # objs) =
     (if (case get_attr obj ''type'' of None \<Rightarrow> ''model'' | Some v \<Rightarrow> v) = ''model''
      then (case find_element obj ''mesh'' nss of
              Some mesh_check \<Rightarrow> Some obj
            | None \<Rightarrow> first_model_object nss objs)
      else first_model_object nss objs)"

fun first_mesh_object :: "string option list \<Rightarrow> element list \<Rightarrow> element option" where
  "first_mesh_object nss [] = None"
| "first_mesh_object nss (obj # objs) =
     (case find_element obj ''mesh'' nss of
        Some mesh_check \<Rightarrow> Some obj
      | None \<Rightarrow> first_mesh_object nss objs)"

definition select_object :: "string option list \<Rightarrow> element list \<Rightarrow> element option" where
  "select_object nss objects =
     (case first_model_object nss objects of
        Some obj \<Rightarrow> Some obj
      | None \<Rightarrow> first_mesh_object nss objects)"

text \<open>
  Sequencing inside the \<^verbatim>\<open>try\<close>: a raised exception skips the rest of the body.
\<close>

definition and_then :: "exn + 'a \<Rightarrow> ('a \<Rightarrow> exn + 'b) \<Rightarrow> exn + 'b" where
  "and_then r f = (case r of Inl e \<Rightarrow> Inl e | Inr v \<Rightarrow> f v)"

text \<open>Vertices: \<^verbatim>\<open>float(v.get('x', 0))\<close> and so on, in the order x, y, z.\<close>

definition float_attr :: "env \<Rightarrow> element \<Rightarrow> string \<Rightarrow> exn + real" where
  "float_attr E v k = (case get_attr v k of None \<Rightarrow> Inr 0 | Some s \<Rightarrow> py_float E s)"

definition parse_vertex :: "env \<Rightarrow> element \<Rightarrow> exn + vertex" where
  "parse_vertex E v =
     and_then (float_attr E v ''x'') (\<lambda>x.
     and_then (float_attr E v ''y'') (\<lambda>y.
     and_then (float_attr E v ''z'') (\<lambda>z. Inr (x, y, z))))"

fun parse_vertex_elements :: "env \<Rightarrow> element list \<Rightarrow> exn + vertex list" where
  "parse_vertex_elements E [] = Inr []"
| "parse_vertex_elements E (v # vs) =
     and_then (parse_vertex E v) (\<lambda>p.
     and_then (parse_vertex_elements E vs) (\<lambda>ps. Inr (p # ps)))"

definition read_vertices :: "env \<Rightarrow> string option list \<Rightarrow> element \<Rightarrow> exn + vertex list" where
  "read_vertices E nss mesh_node =
     (case find_element mesh_node ''vertices'' nss of
        None \<Rightarrow> Inr []
      | Some vertices_node \<Rightarrow>
          parse_vertex_elements E (find_all_elements vertices_node ''vertex'' nss))"

text \<open>
  Triangles: \<^verbatim>\<open>int(t.get('v1'))\<close> and so on. A missing attribute gives
  \<^verbatim>\<open>int(None)\<close>, a TypeError.
\<close>

definition int_none_text :: string where
  "int_none_text =
     ''int() argument must be a string, a bytes-like object or a real number, not ''
     @ [CHR 0x27] @ ''NoneType'' @ [CHR 0x27]"

definition int_attr :: "env \<Rightarrow> element \<Rightarrow> string \<Rightarrow> exn + int" where
  "int_attr E t k =
     (case get_attr t k of None \<Rightarrow> Inl (Exception int_none_text) | Some s \<Rightarrow> py_int E s)"

definition parse_triangle :: "env \<Rightarrow> element \<Rightarrow> exn + int \<times> int \<times> int" where
  "parse_triangle E t =
     and_then (int_attr E t ''v1'') (\<lambda>v1.
     and_then (int_attr E t ''v2'') (\<lambda>v2.
     and_then (int_attr E t ''v3'') (\<lambda>v3. Inr (v1, v2, v3))))"

fun parse_triangle_elements :: "env \<Rightarrow> element list \<Rightarrow> exn + (int \<times> int \<times> int) list" where
  "parse_triangle_elements E [] = Inr []"
| "parse_triangle_elements E (t # ts) =
     and_then (parse_triangle E t) (\<lambda>f.
     and_then (parse_triangle_elements E ts) (\<lambda>fs. Inr (f # fs)))"

definition read_faces :: "env \<Rightarrow> string option list \<Rightarrow> element \<Rightarrow> exn + (int \<times> int \<times> int) list" where
  "read_faces E nss mesh_node =
     (case find_element mesh_node ''triangles'' nss of
        None \<Rightarrow> Inr []
      | Some triangles_node \<Rightarrow>
          parse_triangle_elements E (find_all_elements triangles_node ''triangle'' nss))"

text \<open>
  Materializing: \<^verbatim>\<open>np_vertices[f[j], :]\<close>. numpy takes an index \<open>i\<close> with
  \<open>- n \<le> i < n\<close>, a negative one counting from the end, and raises IndexError otherwise.
\<close>

definition index_error_text :: "int \<Rightarrow> nat \<Rightarrow> string" where
  "index_error_text i n =
     ''index '' @ show_int i @ '' is out of bounds for axis 0 with size '' @ show_nat n"

definition np_row :: "vertex list \<Rightarrow> int \<Rightarrow> exn + vertex" where
  "np_row vertices i =
     (let n = int (length vertices) in
      if 0 \<le> i \<and> i < n then Inr (vertices ! nat i)
      else if - n \<le> i \<and> i < 0 then Inr (vertices ! nat (n + i))
      else Inl (Exception (index_error_text i (length vertices))))"

definition face_vectors :: "vertex list \<Rightarrow> int \<times> int \<times> int \<Rightarrow> exn + triangle" where
  "face_vectors vertices f =
     (case f of (v1, v2, v3) \<Rightarrow>
        and_then (np_row vertices v1) (\<lambda>a.
        and_then (np_row vertices v2) (\<lambda>b.
        and_then (np_row vertices v3) (\<lambda>c. Inr (a, b, c)))))"

fun fill_vectors :: "vertex list \<Rightarrow> (int \<times> int \<times> int) list \<Rightarrow> exn + mesh" where
  "fill_vectors vertices [] = Inr []"
| "fill_vectors vertices (f # fs) =
     and_then (face_vectors vertices f) (\<lambda>t.
     and_then (fill_vectors vertices fs) (\<lambda>ts. Inr (t # ts)))"

definition fits_int64 :: "int \<Rightarrow> bool" where
  "fits_int64 i = (- (2 ^ 63) \<le> i \<and> i < 2 ^ 63)"

definition face_fits :: "int \<times> int \<times> int \<Rightarrow> bool" where
  "face_fits f = (case f of (v1, v2, v3) \<Rightarrow> fits_int64 v1 \<and> fits_int64 v2 \<and> fits_int64 v3)"

definition build_mesh :: "env \<Rightarrow> vertex list \<Rightarrow> (int \<times> int \<times> int) list \<Rightarrow> exn + mesh" where
  "build_mesh E vertices faces =
     (if list_all face_fits faces then fill_vectors vertices faces
      else Inl (np_index_overflow E faces))"

definition face_indices :: "(int \<times> int \<times> int) list \<Rightarrow> int list" where
  \<comment> \<open>the indices in the order the two nested loops dereference them\<close>
  "face_indices faces = concat (map (\<lambda>(v1, v2, v3). [v1, v2, v3]) faces)"

text \<open>
  The part of \<^verbatim>\<open>load_3mf_mesh\<close> that works on the parsed document, one function
  for each stage, named after the variable the stage assigns.
\<close>

definition mesh_of_node :: "env \<Rightarrow> string option list \<Rightarrow> element \<Rightarrow> exn + mesh" where
  "mesh_of_node E nss mesh_node =
     and_then (read_vertices E nss mesh_node) (\<lambda>vertices.
       if length vertices = 0 then Inl (Exception ''No vertices found in 3MF mesh'')
       else and_then (read_faces E nss mesh_node) (\<lambda>faces.
         if length faces = 0 then Inl (Exception ''No triangles found in 3MF mesh'')
         else build_mesh E vertices faces))"

definition mesh_of_objects :: "env \<Rightarrow> string option list \<Rightarrow> element list \<Rightarrow> exn + mesh" where
  "mesh_of_objects E nss objects =
     (case select_object nss objects of
        None \<Rightarrow> Inl (Exception ''No object with mesh found in 3MF file'')
      | Some object_node \<Rightarrow>
          (case find_element object_node ''mesh'' nss of
             None \<Rightarrow> Inl (Exception ''No mesh found in 3MF object'')
           | Some mesh_node \<Rightarrow> mesh_of_node E nss mesh_node))"

definition load_model :: "env \<Rightarrow> element \<Rightarrow> exn + mesh" where
  "load_model E root_node =
     (let nss = possible_namespaces root_node in
      case find_element root_node ''resources'' nss of
        None \<Rightarrow> Inl (Exception ''No resources found in 3MF file'')
      | Some resources \<Rightarrow>
          (let objects = find_all_elements resources ''object'' nss in
           if objects = [] then Inl (Exception ''No object found in 3MF file'')
           else mesh_of_objects E nss objects))"

definition open_model :: "env \<Rightarrow> string \<Rightarrow> exn + mesh" where
  \<comment> \<open>the body of the \<^verbatim>\<open>try\<close>\<close>
  "open_model E file_path =
     and_then (zip_open E file_path) (\<lambda>entries.
       case filter (\<lambda>(f, content). endswith f ''.model'') entries of
         [] \<Rightarrow> Inl (Exception ''No .model file found in 3MF archive'')
       | (f, content) # rest \<Rightarrow> and_then content (load_model E))"

definition load_3mf_mesh :: "env \<Rightarrow> string \<Rightarrow> exn + mesh" where
  "load_3mf_mesh E file_path =
     (case open_model E file_path of
        Inl (BadZipFile m) \<Rightarrow> Inl (Exception ''Invalid 3MF file (not a valid ZIP)'')
      | Inl (Exception m) \<Rightarrow> Inl (Exception (''Failed to parse 3MF file: '' @ m))
      | Inr model_mesh \<Rightarrow> Inr model_mesh)"

subsection \<open>Paths\<close>

text \<open>
  \<^verbatim>\<open>Path(file_path).suffix.lower()\<close>, for paths with \<^verbatim>\<open>/\<close> as separator. The
  name is the last component that is neither empty nor a single dot; the suffix starts
  at the last dot of the name, unless that dot is the first or the last character.
  Lower-casing is spelled out for the letters A to Z; no other character lower-cases to
  a character of \<^verbatim>\<open>.stl\<close> or \<^verbatim>\<open>.3mf\<close>.
\<close>

fun split_on :: "char \<Rightarrow> string \<Rightarrow> string list" where
  "split_on c [] = [[]]"
| "split_on c (x # xs) =
     (if x = c then [] # split_on c xs
      else (case split_on c xs of [] \<Rightarrow> [[x]] | w # ws \<Rightarrow> (x # w) # ws))"

definition path_name :: "string \<Rightarrow> string" where
  "path_name p =
     (case rev (filter (\<lambda>c. c \<noteq> [] \<and> c \<noteq> ''.'') (split_on CHR ''/'' p)) of
        [] \<Rightarrow> []
      | n # rest \<Rightarrow> n)"

definition rfind_dot :: "string \<Rightarrow> nat option" where
  "rfind_dot name =
     (if CHR ''.'' \<in> set name
      then Some (length name - 1 - length (takeWhile (\<lambda>c. c \<noteq> CHR ''.'') (rev name)))
      else None)"

definition path_suffix :: "string \<Rightarrow> string" where
  "path_suffix p =
     (let name = path_name p in
      case rfind_dot name of
        None \<Rightarrow> []
      | Some i \<Rightarrow> if 0 < i \<and> i < length name - 1 then drop i name else [])"

definition lower_char :: "char \<Rightarrow> char" where
  "lower_char c =
     (let n = (of_char c :: nat) in if 65 \<le> n \<and> n \<le> 90 then char_of (n + 32) else c)"

definition file_ext_of :: "string \<Rightarrow> string" where
  "file_ext_of p = map lower_char (path_suffix p)"

subsection \<open>Mesh statistics and normalization\<close>

definition mesh_points :: "mesh \<Rightarrow> vertex list" where
  "mesh_points m = concat (map (\<lambda>(a, b, c). [a, b, c]) m)"

definition zero_size_text :: "string \<Rightarrow> string" where
  "zero_size_text opname =
     ''zero-size array to reduction operation '' @ opname @ '' which has no identity''"

definition mesh_min :: "mesh \<Rightarrow> exn + vertex" where
  \<comment> \<open>\<^verbatim>\<open>stl_mesh.min_\<close>: the minimum of each axis over all points\<close>
  "mesh_min m =
     (case mesh_points m of
        [] \<Rightarrow> Inl (Exception (zero_size_text ''minimum''))
      | p # ps \<Rightarrow>
          Inr (fold min (map fst ps) (fst p),
               fold min (map (fst \<circ> snd) ps) (fst (snd p)),
               fold min (map (snd \<circ> snd) ps) (snd (snd p))))"

definition mesh_max :: "mesh \<Rightarrow> exn + vertex" where
  \<comment> \<open>\<^verbatim>\<open>stl_mesh.max_\<close>\<close>
  "mesh_max m =
     (case mesh_points m of
        [] \<Rightarrow> Inl (Exception (zero_size_text ''maximum''))
      | p # ps \<Rightarrow>
          Inr (fold max (map fst ps) (fst p),
               fold max (map (fst \<circ> snd) ps) (fst (snd p)),
               fold max (map (snd \<circ> snd) ps) (snd (snd p))))"

definition vsub :: "vertex \<Rightarrow> vertex \<Rightarrow> vertex" where
  "vsub a b = (case a of (ax, ay, az) \<Rightarrow> case b of (bx, by, bz) \<Rightarrow> (ax - bx, ay - by, az - bz))"

definition vadd :: "vertex \<Rightarrow> vertex \<Rightarrow> vertex" where
  "vadd a b = (case a of (ax, ay, az) \<Rightarrow> case b of (bx, by, bz) \<Rightarrow> (ax + bx, ay + by, az + bz))"

definition vdiv :: "vertex \<Rightarrow> real \<Rightarrow> vertex" where
  "vdiv a d = (case a of (ax, ay, az) \<Rightarrow> (ax / d, ay / d, az / d))"

definition map_points :: "(vertex \<Rightarrow> vertex) \<Rightarrow> mesh \<Rightarrow> mesh" where
  "map_points g m = map (\<lambda>(a, b, c). (g a, g b, g c)) m"

definition normalize :: "mesh \<Rightarrow> vertex \<Rightarrow> vertex \<Rightarrow> mesh" where
  \<comment> \<open>\<^verbatim>\<open>vectors_normalized\<close> from \<^verbatim>\<open>vectors\<close>, \<^verbatim>\<open>min_coords\<close> and \<^verbatim>\<open>max_coords\<close>\<close>
  "normalize vectors min_coords max_coords =
     (let dimensions = vsub max_coords min_coords;
          center = vdiv (vadd min_coords max_coords) 2;
          vectors_centered = map_points (\<lambda>v. vsub v center) vectors;
          max_range = (case dimensions of (dx, dy, dz) \<Rightarrow> max dx (max dy dz)) / 2
      in if max_range > 0 then map_points (\<lambda>v. vdiv v max_range) vectors_centered
         else vectors_centered)"

subsection \<open>Job results\<close>

record metadata =
  dim_x :: real
  dim_y :: real
  dim_z :: real
  volume :: "real option"
  triangles :: nat

text \<open>
  The \<^verbatim>\<open>metadata\<close> entry of a result: the key is missing, or it holds the empty
  dictionary, or it holds dimensions and triangle count. \<open>volume\<close> is \<open>None\<close> where
  the dictionary has no such key (the batch script).
\<close>

datatype meta = Absent | Empty | Filled metadata

record job_result =
  success :: bool
  file_path :: string
  output_path :: string
  error :: "string option"
  metadata :: meta

text \<open>
  The two \<^verbatim>\<open>except Exception as e\<close> handlers. The one of \<^verbatim>\<open>generate_thumbnail\<close>
  stores the text and clears the success flag; the one of \<^verbatim>\<open>generate_single_thumbnail\<close>
  stores the text only. Exceptions outside the \<^verbatim>\<open>Exception\<close> hierarchy
  (\<^verbatim>\<open>KeyboardInterrupt\<close>, \<^verbatim>\<open>SystemExit\<close>) are not represented.
\<close>

definition raised :: "job_result \<Rightarrow> exn \<Rightarrow> job_result" where
  "raised result e = result\<lparr>error := Some (str_of e), success := False\<rparr>"

definition raised_single :: "job_result \<Rightarrow> exn \<Rightarrow> job_result" where
  "raised_single result e = result\<lparr>error := Some (str_of e)\<rparr>"

subsection \<open>The job runner\<close>

definition unsupported_text :: "string \<Rightarrow> string" where
  "unsupported_text file_ext =
     ''Unsupported file type: '' @ file_ext @ ''. Only .stl and .3mf are supported.''"

definition load_mesh :: "env \<Rightarrow> string \<Rightarrow> exn + mesh" where
  \<comment> \<open>the dispatch on the extension, the same in both scripts\<close>
  "load_mesh E path =
     (let file_ext = file_ext_of path in
      if file_ext = ''.stl'' then stl_from_file E path
      else if file_ext = ''.3mf'' then load_3mf_mesh E path
      else Inl (Exception (unsupported_text file_ext)))"

definition render_to ::
  "env \<Rightarrow> (job_result \<Rightarrow> exn \<Rightarrow> job_result) \<Rightarrow> job_result \<Rightarrow> mesh \<Rightarrow> vertex \<Rightarrow> vertex \<Rightarrow>
   string \<Rightarrow> int \<Rightarrow> job_result" where
  \<comment> \<open>from \<^verbatim>\<open>plt.figure\<close> to \<^verbatim>\<open>result["success"] = True\<close>, the same in both scripts
      up to the handler\<close>
  "render_to E handler result stl_mesh min_coords max_coords out size_px =
     (case plt_figure E size_px of
        Some e \<Rightarrow> handler result e
      | None \<Rightarrow>
          (case render_save E (normalize stl_mesh min_coords max_coords) out size_px of
             Some e \<Rightarrow> handler result e
           | None \<Rightarrow> result\<lparr>success := True\<rparr>))"

definition generate_thumbnail :: "env \<Rightarrow> string \<Rightarrow> string \<Rightarrow> int \<Rightarrow> job_result" where
  "generate_thumbnail E path out size_px =
     (let result = \<lparr>success = False, file_path = path, output_path = out,
                     error = None, metadata = Empty\<rparr>
      in case load_mesh E path of
           Inl e \<Rightarrow> raised result e
         | Inr stl_mesh \<Rightarrow>
      (case mesh_min stl_mesh of
           Inl e \<Rightarrow> raised result e
         | Inr min_coords \<Rightarrow>
      (case mesh_max stl_mesh of
           Inl e \<Rightarrow> raised result e
         | Inr max_coords \<Rightarrow>
      (case mass_volume E stl_mesh of
           Inl e \<Rightarrow> raised result e
         | Inr vol \<Rightarrow>
      (let dimensions = vsub max_coords min_coords;
           result = result\<lparr>metadata := Filled
             \<lparr>dim_x = fst dimensions, dim_y = fst (snd dimensions), dim_z = snd (snd dimensions),
              volume = Some vol, triangles = length stl_mesh\<rparr>\<rparr>
       in render_to E raised result stl_mesh min_coords max_coords out size_px)))))"

definition generate_single_thumbnail :: "env \<Rightarrow> string \<Rightarrow> string \<Rightarrow> int \<Rightarrow> job_result" where
  "generate_single_thumbnail E path out size_px =
     (let result = \<lparr>success = False, file_path = path, output_path = out,
                     error = None, metadata = Absent\<rparr>
      in case load_mesh E path of
           Inl e \<Rightarrow> raised_single result e
         | Inr stl_mesh \<Rightarrow>
      (case mesh_min stl_mesh of
           Inl e \<Rightarrow> raised_single result e
         | Inr min_coords \<Rightarrow>
      (case mesh_max stl_mesh of
           Inl e \<Rightarrow> raised_single result e
         | Inr max_coords \<Rightarrow>
      (let dimensions = vsub max_coords min_coords;
           result = result\<lparr>metadata := Filled
             \<lparr>dim_x = fst dimensions, dim_y = fst (snd dimensions), dim_z = snd (snd dimensions),
              volume = None, triangles = length stl_mesh\<rparr>\<rparr>
       in render_to E raised_single result stl_mesh min_coords max_coords out size_px))))"

subsection \<open>The batch scheduler\<close>

record job =
  job_input :: string
  job_output :: string
  job_size :: "int option"

record summary =
  batch_success :: bool
  total :: int
  succeeded :: int
  failed :: int
  results :: "job_result list"

text \<open>What streaming prints to standard output, one JSON line each.\<close>

datatype emitted = ResultLine job_result | SummaryLine summary

text \<open>
  The process pool is outside the repository. A run of it is described by
  \<^item> \<open>completion\<close>: the choices of the scheduler, which decide the order in which
    \<^verbatim>\<open>as_completed\<close> hands the futures back;
  \<^item> \<open>fault\<close>: for the job submitted at a position, the exception
    \<^verbatim>\<open>future.result()\<close> raises when its worker did not return a result.

  \<^verbatim>\<open>as_completed\<close> yields every submitted future once. Each choice \<open>k\<close> picks, among
  the futures still pending, the one at position \<open>k mod\<close> their number; when the choices
  run out the rest complete in submission order.

  The pool refuses a worker count below one and is taken to accept every other
  (CPython on Windows also refuses more than 61 workers). Submitting a job and printing
  a line are taken to succeed.
\<close>

record pool =
  completion :: "nat list"
  fault :: "nat \<Rightarrow> exn option"

function as_completed :: "nat list \<Rightarrow> 'a list \<Rightarrow> 'a list" where
  "as_completed ks [] = []"
| "as_completed [] (x # xs) = x # xs"
| "as_completed (k # ks) (x # xs) =
     (let i = k mod length (x # xs)
      in (x # xs) ! i # as_completed ks (take i (x # xs) @ drop (Suc i) (x # xs)))"
  by pat_completeness auto
termination
  by (relation "measure (\<lambda>(ks, xs). length xs)") auto

definition future_result :: "env \<Rightarrow> pool \<Rightarrow> nat \<times> job \<Rightarrow> exn + job_result" where
  \<comment> \<open>\<^verbatim>\<open>future.result()\<close> for the job submitted at position \<open>i\<close>\<close>
  "future_result E P fut =
     (case fut of (i, j) \<Rightarrow>
        (case fault P i of
           Some e \<Rightarrow> Inl e
         | None \<Rightarrow>
             Inr (generate_single_thumbnail E (job_input j) (job_output j)
                    (case job_size j of None \<Rightarrow> 256 | Some s \<Rightarrow> s))))"

fun collect ::
  "env \<Rightarrow> pool \<Rightarrow> bool \<Rightarrow> (nat \<times> job) list \<Rightarrow>
   job_result list \<times> int \<times> emitted list \<Rightarrow> job_result list \<times> int \<times> emitted list" where
  "collect E P stream [] st = st"
| "collect E P stream (fut # futs) (rs, success_count, printed) =
     (case future_result E P fut of
        Inr result \<Rightarrow>
          collect E P stream futs
            (rs @ [result],
             (if success result then success_count + 1 else success_count),
             (if stream then printed @ [ResultLine result] else printed))
      | Inl e \<Rightarrow>
          (let err_result =
                 \<lparr>success = False, file_path = job_input (snd fut), output_path = job_output (snd fut),
                  error = Some (str_of e), metadata = Absent\<rparr>
           in collect E P stream futs
                (rs @ [err_result], success_count,
                 (if stream then printed @ [ResultLine err_result] else printed))))"

definition process_batch ::
  "env \<Rightarrow> pool \<Rightarrow> job list \<Rightarrow> int \<Rightarrow> bool \<Rightarrow> exn + summary \<times> emitted list" where
  "process_batch E P jobs max_workers stream =
     (if max_workers \<le> 0 then Inl (Exception ''max_workers must be greater than 0'')
      else
        (case collect E P stream (as_completed (completion P) (enumerate 0 jobs)) ([], 0, []) of
           (rs, success_count, printed) \<Rightarrow>
             (let summary =
                    \<lparr>batch_success = True, total = int (length jobs), succeeded = success_count,
                     failed = int (length jobs) - success_count, results = rs\<rparr>
              in Inr (summary, if stream then printed @ [SummaryLine summary] else printed))))"

subsection \<open>Documents in one namespace\<close>

text \<open>
  A document that declares no namespace has plain tags throughout. The same document
  under a default namespace \<open>u\<close> has every tag prefixed with \<^verbatim>\<open>{u}\<close>; attributes
  are untouched.
\<close>

fun plain :: "element \<Rightarrow> bool" where
  "plain (Element t a cs) = (\<not> startswith t ''{'' \<and> (\<forall>c \<in> set cs. plain c))"

fun in_namespace :: "string \<Rightarrow> element \<Rightarrow> element" where
  "in_namespace u (Element t a cs) = Element (clark u t) a (map (in_namespace u) cs)"

text \<open>
  What the lemmas on namespaces ask of a URI: it is not empty, holds no closing brace,
  is not the wildcard, and \<^verbatim>\<open>strip('{')\<close> leaves it alone.
\<close>

definition uri_ok :: "string \<Rightarrow> bool" where
  "uri_ok u =
     (u \<noteq> [] \<and> CHR ''}'' \<notin> set u \<and> u \<noteq> ''*'' \<and> hd u \<noteq> CHR ''{'' \<and> last u \<noteq> CHR ''{'')"

subsection \<open>Sample inputs\<close>

text \<open>
  Stand-ins for \<^verbatim>\<open>int\<close> and \<^verbatim>\<open>float\<close> that agree with Python on ASCII digits
  with an optional minus sign; they are used for concrete runs only.
\<close>

definition digit_of :: "char \<Rightarrow> nat option" where
  "digit_of c = (let n = (of_char c :: nat) in if 48 \<le> n \<and> n \<le> 57 then Some (n - 48) else None)"

fun nat_of_digits :: "nat \<Rightarrow> string \<Rightarrow> nat option" where
  "nat_of_digits acc [] = Some acc"
| "nat_of_digits acc (c # cs) =
     (case digit_of c of None \<Rightarrow> None | Some d \<Rightarrow> nat_of_digits (10 * acc + d) cs)"

definition sample_int :: "string \<Rightarrow> exn + int" where
  "sample_int s =
     (let bad = Inl (Exception (''invalid literal for int() with base 10: ''
                                @ [CHR 0x27] @ s @ [CHR 0x27])) in
      case s of
        [] \<Rightarrow> bad
      | c # cs \<Rightarrow>
          if c = CHR ''-'' then
            (if cs = [] then bad
             else (case nat_of_digits 0 cs of None \<Rightarrow> bad | Some n \<Rightarrow> Inr (- int n)))
          else (case nat_of_digits 0 s of None \<Rightarrow> bad | Some n \<Rightarrow> Inr (int n)))"

definition sample_float :: "string \<Rightarrow> exn + real" where
  "sample_float s =
     (case sample_int s of
        Inl e \<Rightarrow> Inl (Exception (''could not convert string to float: ''
                               @ [CHR 0x27] @ s @ [CHR 0x27]))
      | Inr i \<Rightarrow> Inr (of_int i))"

definition sample_env :: env where
  "sample_env =
     \<lparr>zip_open = (\<lambda>p. Inl (BadZipFile ''File is not a zip file'')),
      py_float = sample_float,
      py_int = sample_int,
      np_index_overflow = (\<lambda>fs. Exception ''Python int too large to convert to C long''),
      stl_from_file = (\<lambda>p. Inl (Exception ''File too small to be an STL file'')),
      mass_volume = (\<lambda>m. Inr 0),
      plt_figure = (\<lambda>s. None),
      render_save = (\<lambda>m out s. None)\<rparr>"

definition vertex_elem :: "string \<Rightarrow> string \<Rightarrow> string \<Rightarrow> element" where
  "vertex_elem x y z = Element ''vertex'' [(''x'', x), (''y'', y), (''z'', z)] []"

definition triangle_elem :: "string \<Rightarrow> string \<Rightarrow> string \<Rightarrow> element" where
  "triangle_elem v1 v2 v3 = Element ''triangle'' [(''v1'', v1), (''v2'', v2), (''v3'', v3)] []"

definition mesh_elem :: "element list \<Rightarrow> element list \<Rightarrow> element" where
  "mesh_elem vs ts = Element ''mesh'' [] [Element ''vertices'' [] vs, Element ''triangles'' [] ts]"

definition model_doc :: "element list \<Rightarrow> element" where
  "model_doc objects = Element ''model'' [(''unit'', ''millimeter'')] [Element ''resources'' [] objects]"

definition archive_env :: "element \<Rightarrow> env" where
  \<comment> \<open>every path opens as an archive whose model part parses to the given document\<close>
  "archive_env doc =
     sample_env\<lparr>zip_open := (\<lambda>p. Inr [(''[Content_Types].xml'', Inl (Exception ''not read'')),
                                        (''3D/3dmodel.model'', Inr doc)])\<rparr>"

definition corner_vertices :: "element list" where
  \<comment> \<open>the eight corners of the unit cube\<close>
  "corner_vertices =
     [vertex_elem ''0'' ''0'' ''0'', vertex_elem ''1'' ''0'' ''0'',
      vertex_elem ''1'' ''1'' ''0'', vertex_elem ''0'' ''1'' ''0'',
      vertex_elem ''0'' ''0'' ''1'', vertex_elem ''1'' ''0'' ''1'',
      vertex_elem ''1'' ''1'' ''1'', vertex_elem ''0'' ''1'' ''1'']"

definition three_vertices :: "element list" where
  "three_vertices =
     [vertex_elem ''0'' ''0'' ''0'', vertex_elem ''1'' ''0'' ''0'', vertex_elem ''0'' ''1'' ''0'']"

definition support_object :: element where
  "support_object =
     Element ''object'' [(''id'', ''1''), (''type'', ''support'')]
       [mesh_elem three_vertices [triangle_elem ''0'' ''1'' ''2'']]"

definition model_object :: element where
  "model_object =
     Element ''object'' [(''id'', ''2''), (''type'', ''model'')]
       [mesh_elem three_vertices [triangle_elem ''2'' ''1'' ''0'']]"

definition component_object :: element where
  "component_object = Element ''object'' [(''id'', ''3'')] [Element ''components'' [] []]"

definition corner_points :: "vertex list" where
  "corner_points =
     [(0, 0, 0), (1, 0, 0), (1, 1, 0), (0, 1, 0), (0, 0, 1), (1, 0, 1), (1, 1, 1), (0, 1, 1)]"

definition bad_index_mesh :: element where
  "bad_index_mesh = mesh_elem corner_vertices [triangle_elem ''0'' ''1'' ''999'']"

definition negative_index_doc :: element where
  \<comment> \<open>three vertices and one triangle whose first index is \<open>-1\<close>\<close>
  "negative_index_doc =
     model_doc [Element ''object'' [(''id'', ''1''), (''type'', ''model'')]
                  [mesh_elem three_vertices [triangle_elem ''-1'' ''0'' ''1'']]]"

definition bad_index_doc :: element where
  \<comment> \<open>eight vertices and one triangle that refers to vertex 999\<close>
  "bad_index_doc =
     model_doc [Element ''object'' [(''id'', ''1''), (''type'', ''model'')] [bad_index_mesh]]"

definition unit_triangle :: mesh where
  "unit_triangle = [((0, 0, 0), (1, 0, 0), (0, 1, 0))]"

definition no_such_file_text :: "string \<Rightarrow> string" where
  \<comment> \<open>\<^verbatim>\<open>str(e)\<close> of a FileNotFoundError for a path\<close>
  "no_such_file_text p = ''[Errno 2] No such file or directory: '' @ [CHR 0x27] @ p @ [CHR 0x27]"

definition no_such_dir_text :: string where
  "no_such_dir_text = no_such_file_text []"

definition stl_env :: env where
  \<comment> \<open>\<^verbatim>\<open>cube.stl\<close> holds one triangle and no other STL file can be read; saving raises
      when the output path has no directory part, as \<^verbatim>\<open>os.makedirs('')\<close> does\<close>
  "stl_env =
     sample_env\<lparr>stl_from_file := (\<lambda>p. if p = ''cube.stl'' then Inr unit_triangle
                                         else Inl (Exception (no_such_file_text p))),
                render_save := (\<lambda>m out s. if CHR ''/'' \<in> set out then None
                                            else Some (Exception no_such_dir_text))\<rparr>"



subsection \<open>Auxiliary notions for the statements\<close>

text \<open>
  The triangle numpy builds for a face whose indices lie between \<open>- n\<close> and \<open>n - 1\<close>:
  an index counts from the end when negative.
\<close>

definition wrapped :: "vertex list \<Rightarrow> int \<times> int \<times> int \<Rightarrow> triangle" where
  "wrapped vs f =
     (case f of (v1, v2, v3) \<Rightarrow>
        (vs ! nat (v1 mod int (length vs)), vs ! nat (v2 mod int (length vs)),
         vs ! nat (v3 mod int (length vs))))"

text \<open>The candidate lists of a document in namespace \<open>u\<close> and of one without namespace.\<close>

definition cand_q :: "string \<Rightarrow> string option list" where
  "cand_q u = [Some u, Some ns_microsoft, Some ns_openxml, None]"

definition cand_d :: "string option list" where
  "cand_d = [None, Some ns_microsoft, Some ns_openxml, None]"

text \<open>What the loop of \<^verbatim>\<open>process_batch\<close> appends for one completed future.\<close>

definition job_outcome :: "env \<Rightarrow> pool \<Rightarrow> nat \<times> job \<Rightarrow> job_result" where
  "job_outcome E P fut =
     (case future_result E P fut of
        Inr result \<Rightarrow> result
      | Inl e \<Rightarrow> \<lparr>success = False, file_path = job_input (snd fut), output_path = job_output (snd fut),
                  error = Some (str_of e), metadata = Absent\<rparr>)"

section \<open>Properties\<close>

subsection \<open>Results of the job runner\<close>

lemma raised_simps [simp]:
  "success (raised r e) = False"
  "error (raised r e) = Some (str_of e)"
  "file_path (raised r e) = file_path r"
  "output_path (raised r e) = output_path r"
  "metadata (raised r e) = metadata r"
  by (simp_all add: raised_def)

lemma raised_single_simps [simp]:
  "success (raised_single r e) = success r"
  "error (raised_single r e) = Some (str_of e)"
  "file_path (raised_single r e) = file_path r"
  "output_path (raised_single r e) = output_path r"
  "metadata (raised_single r e) = metadata r"
  by (simp_all add: raised_single_def)

lemma render_to_fields:
  "file_path (render_to E raised r m mn mx out s) = file_path r"
  "output_path (render_to E raised r m mn mx out s) = output_path r"
  "metadata (render_to E raised r m mn mx out s) = metadata r"
  "file_path (render_to E raised_single r m mn mx out s) = file_path r"
  "output_path (render_to E raised_single r m mn mx out s) = output_path r"
  "metadata (render_to E raised_single r m mn mx out s) = metadata r"
  by (simp_all add: render_to_def split: option.splits)

lemma render_to_success:
  "success (render_to E raised r m mn mx out s) =
     (plt_figure E s = None \<and> render_save E (normalize m mn mx) out s = None)"
  "\<not> success r \<Longrightarrow>
   success (render_to E raised_single r m mn mx out s) =
     (plt_figure E s = None \<and> render_save E (normalize m mn mx) out s = None)"
  by (auto simp add: render_to_def split: option.splits)

lemma render_to_error:
  "error (render_to E raised r m mn mx out s) =
     (case plt_figure E s of
        Some e \<Rightarrow> Some (str_of e)
      | None \<Rightarrow> (case render_save E (normalize m mn mx) out s of
                   Some e \<Rightarrow> Some (str_of e)
                 | None \<Rightarrow> error r))"
  "error (render_to E raised_single r m mn mx out s) =
     (case plt_figure E s of
        Some e \<Rightarrow> Some (str_of e)
      | None \<Rightarrow> (case render_save E (normalize m mn mx) out s of
                   Some e \<Rightarrow> Some (str_of e)
                 | None \<Rightarrow> error r))"
  by (simp_all add: render_to_def split: option.splits)

lemma ext_obj: "file_ext_of ''parts/gear.OBJ'' = ''.obj''"
  by code_simp

lemma ext_stl: "file_ext_of ''parts/Cube.STL'' = ''.stl''"
  by code_simp

lemma ext_3mf: "file_ext_of ''bad.3mf'' = ''.3mf''"
  by code_simp

lemma ext_cube: "file_ext_of ''cube.stl'' = ''.stl''"
  by code_simp

lemma unit_triangle_stats:
  "mesh_min unit_triangle = Inr (0, 0, 0)" "mesh_max unit_triangle = Inr (1, 1, 0)"
  by (simp_all add: unit_triangle_def mesh_min_def mesh_max_def mesh_points_def)

lemma load_cube: "load_mesh stl_env ''cube.stl'' = Inr unit_triangle"
  by (simp add: load_mesh_def ext_cube stl_env_def sample_env_def)

lemma load_small:
  "load_mesh sample_env ''parts/Cube.STL'' = Inl (Exception ''File too small to be an STL file'')"
  by (simp add: load_mesh_def ext_stl sample_env_def)

lemma stl_env_fields:
  "plt_figure stl_env s = None" "mass_volume stl_env m = Inr 0"
  "render_save stl_env m ''cube.png'' s = Some (Exception no_such_dir_text)"
  "render_save stl_env m ''thumbs/cube.png'' s = None"
  by (simp_all add: stl_env_def sample_env_def)

text \<open>
  Claim C1. For every job the runner returns a result record that echoes the two paths,
  and no exception of a collaborator gets past it: the result is a success exactly when
  no error text is set; an exception of the loader, of figure creation or of the renderer
  ends up as the error text of a failed result; and a result is a success only when the
  loader, the statistics, the figure and the renderer all returned. This holds for
  \<^verbatim>\<open>generate_thumbnail\<close> and for \<^verbatim>\<open>generate_single_thumbnail\<close>.
\<close>

theorem job_runner_returns_result:
  "file_path (generate_thumbnail E path out size_px) = path \<and>
   output_path (generate_thumbnail E path out size_px) = out \<and>
   success (generate_thumbnail E path out size_px)
     = (error (generate_thumbnail E path out size_px) = None) \<and>
   (\<forall>e. load_mesh E path = Inl e \<longrightarrow>
        error (generate_thumbnail E path out size_px) = Some (str_of e)) \<and>
   (\<forall>m mn mx v e. load_mesh E path = Inr m \<and> mesh_min m = Inr mn \<and> mesh_max m = Inr mx \<and>
        mass_volume E m = Inr v \<and>
        (plt_figure E size_px = Some e \<or>
         plt_figure E size_px = None \<and> render_save E (normalize m mn mx) out size_px = Some e) \<longrightarrow>
        error (generate_thumbnail E path out size_px) = Some (str_of e)) \<and>
   (success (generate_thumbnail E path out size_px) \<longrightarrow>
      (\<exists>m mn mx v. load_mesh E path = Inr m \<and> mesh_min m = Inr mn \<and> mesh_max m = Inr mx \<and>
         mass_volume E m = Inr v \<and> plt_figure E size_px = None \<and>
         render_save E (normalize m mn mx) out size_px = None)) \<and>
   file_path (generate_single_thumbnail E path out size_px) = path \<and>
   output_path (generate_single_thumbnail E path out size_px) = out \<and>
   success (generate_single_thumbnail E path out size_px)
     = (error (generate_single_thumbnail E path out size_px) = None) \<and>
   (\<forall>e. load_mesh E path = Inl e \<longrightarrow>
        error (generate_single_thumbnail E path out size_px) = Some (str_of e)) \<and>
   (\<forall>m mn mx e. load_mesh E path = Inr m \<and> mesh_min m = Inr mn \<and> mesh_max m = Inr mx \<and>
        (plt_figure E size_px = Some e \<or>
         plt_figure E size_px = None \<and> render_save E (normalize m mn mx) out size_px = Some e) \<longrightarrow>
        error (generate_single_thumbnail E path out size_px) = Some (str_of e)) \<and>
   (success (generate_single_thumbnail E path out size_px) \<longrightarrow>
      (\<exists>m mn mx. load_mesh E path = Inr m \<and> mesh_min m = Inr mn \<and> mesh_max m = Inr mx \<and>
         plt_figure E size_px = None \<and>
         render_save E (normalize m mn mx) out size_px = None))"
  by (auto simp add: generate_thumbnail_def generate_single_thumbnail_def Let_def
      render_to_fields render_to_success render_to_error split: sum.splits option.splits)

theorem job_runner_returns_result_witness:
  "load_mesh sample_env ''parts/Cube.STL'' = Inl (Exception ''File too small to be an STL file'') \<and>
   error (generate_thumbnail sample_env ''parts/Cube.STL'' ''thumbs/cube.png'' 256)
     = Some ''File too small to be an STL file'' \<and>
   \<not> success (generate_thumbnail sample_env ''parts/Cube.STL'' ''thumbs/cube.png'' 256) \<and>
   error (generate_single_thumbnail sample_env ''parts/Cube.STL'' ''thumbs/cube.png'' 256)
     = Some ''File too small to be an STL file'' \<and>
   load_mesh stl_env ''cube.stl'' = Inr unit_triangle \<and>
   mesh_min unit_triangle = Inr (0, 0, 0) \<and> mesh_max unit_triangle = Inr (1, 1, 0) \<and>
   mass_volume stl_env unit_triangle = Inr 0 \<and> plt_figure stl_env 128 = None \<and>
   render_save stl_env (normalize unit_triangle (0, 0, 0) (1, 1, 0)) ''cube.png'' 128
     = Some (Exception no_such_dir_text) \<and>
   error (generate_thumbnail stl_env ''cube.stl'' ''cube.png'' 128) = Some no_such_dir_text \<and>
   error (generate_single_thumbnail stl_env ''cube.stl'' ''cube.png'' 128) = Some no_such_dir_text \<and>
   \<not> success (generate_single_thumbnail stl_env ''cube.stl'' ''cube.png'' 128)"
  using job_runner_returns_result [of sample_env "''parts/Cube.STL''" "''thumbs/cube.png''" 256]
    job_runner_returns_result [of stl_env "''cube.stl''" "''cube.png''" 128]
  by (simp add: load_small load_cube unit_triangle_stats stl_env_fields)

text \<open>
  Claim C8. A path whose lower-cased suffix is neither \<^verbatim>\<open>.stl\<close> nor \<^verbatim>\<open>.3mf\<close> reaches
  no loader: whatever the environment, both runners return the failed result whose text
  names the suffix. The suffix \<^verbatim>\<open>.stl\<close> goes to the STL loader and \<^verbatim>\<open>.3mf\<close> to the
  3MF loader.
\<close>

theorem dispatch_by_extension:
  "(file_ext_of path \<noteq> ''.stl'' \<and> file_ext_of path \<noteq> ''.3mf'' \<longrightarrow>
      load_mesh E path = Inl (Exception (unsupported_text (file_ext_of path))) \<and>
      generate_thumbnail E path out size_px =
        \<lparr>success = False, file_path = path, output_path = out,
         error = Some (''Unsupported file type: '' @ file_ext_of path
                        @ ''. Only .stl and .3mf are supported.''),
         metadata = Empty\<rparr> \<and>
      generate_single_thumbnail E path out size_px =
        \<lparr>success = False, file_path = path, output_path = out,
         error = Some (''Unsupported file type: '' @ file_ext_of path
                        @ ''. Only .stl and .3mf are supported.''),
         metadata = Absent\<rparr>)
   \<and> (file_ext_of path = ''.stl'' \<longrightarrow> load_mesh E path = stl_from_file E path)
   \<and> (file_ext_of path = ''.3mf'' \<longrightarrow> load_mesh E path = load_3mf_mesh E path)"
  by (simp add: load_mesh_def Let_def generate_thumbnail_def generate_single_thumbnail_def
      raised_def raised_single_def unsupported_text_def)

theorem dispatch_by_extension_witness:
  "file_ext_of ''parts/gear.OBJ'' \<noteq> ''.stl'' \<and> file_ext_of ''parts/gear.OBJ'' \<noteq> ''.3mf'' \<and>
   generate_thumbnail sample_env ''parts/gear.OBJ'' ''thumbs/gear.png'' 256 =
     \<lparr>success = False, file_path = ''parts/gear.OBJ'', output_path = ''thumbs/gear.png'',
      error = Some ''Unsupported file type: .obj. Only .stl and .3mf are supported.'',
      metadata = Empty\<rparr> \<and>
   file_ext_of ''parts/Cube.STL'' = ''.stl'' \<and>
   load_mesh sample_env ''parts/Cube.STL'' = Inl (Exception ''File too small to be an STL file'') \<and>
   file_ext_of ''bad.3mf'' = ''.3mf'' \<and>
   load_mesh sample_env ''bad.3mf'' = Inl (Exception ''Invalid 3MF file (not a valid ZIP)'')"
  using dispatch_by_extension [of "''parts/gear.OBJ''" sample_env "''thumbs/gear.png''" 256]
    dispatch_by_extension [of "''parts/Cube.STL''" sample_env]
    dispatch_by_extension [of "''bad.3mf''" sample_env]
  by (simp add: ext_obj ext_stl ext_3mf sample_env_def load_3mf_mesh_def open_model_def
      and_then_def)

lemma open_model_bad_archive:
  "zip_open E path = Inl (BadZipFile m) \<Longrightarrow> open_model E path = Inl (BadZipFile m)"
  by (simp add: open_model_def and_then_def)

text \<open>
  Claim C7. When the path has the suffix \<^verbatim>\<open>.3mf\<close> and opening it as an archive raises
  \<^verbatim>\<open>BadZipFile\<close> (the file is not a zip archive), both runners return a failed result
  whose error text is the container-level message "Invalid 3MF file (not a valid ZIP)".
  The same holds when \<^verbatim>\<open>BadZipFile\<close> is raised later, while the model part is read.
\<close>

theorem invalid_archive:
  "file_ext_of path = ''.3mf'' \<and>
   (zip_open E path = Inl (BadZipFile m) \<or> open_model E path = Inl (BadZipFile m)) \<longrightarrow>
     generate_thumbnail E path out size_px =
       \<lparr>success = False, file_path = path, output_path = out,
        error = Some ''Invalid 3MF file (not a valid ZIP)'', metadata = Empty\<rparr> \<and>
     generate_single_thumbnail E path out size_px =
       \<lparr>success = False, file_path = path, output_path = out,
        error = Some ''Invalid 3MF file (not a valid ZIP)'', metadata = Absent\<rparr>"
proof
  assume h: "file_ext_of path = ''.3mf'' \<and>
   (zip_open E path = Inl (BadZipFile m) \<or> open_model E path = Inl (BadZipFile m))"
  then have "open_model E path = Inl (BadZipFile m)"
    using open_model_bad_archive by blast
  then have "load_mesh E path = Inl (Exception ''Invalid 3MF file (not a valid ZIP)'')"
    using h by (simp add: load_mesh_def Let_def load_3mf_mesh_def)
  then show "generate_thumbnail E path out size_px =
       \<lparr>success = False, file_path = path, output_path = out,
        error = Some ''Invalid 3MF file (not a valid ZIP)'', metadata = Empty\<rparr> \<and>
     generate_single_thumbnail E path out size_px =
       \<lparr>success = False, file_path = path, output_path = out,
        error = Some ''Invalid 3MF file (not a valid ZIP)'', metadata = Absent\<rparr>"
    by (simp add: generate_thumbnail_def generate_single_thumbnail_def raised_def
        raised_single_def)
qed

theorem invalid_archive_witness:
  "file_ext_of ''bad.3mf'' = ''.3mf'' \<and>
   zip_open sample_env ''bad.3mf'' = Inl (BadZipFile ''File is not a zip file'') \<and>
   generate_thumbnail sample_env ''bad.3mf'' ''t/bad.png'' 256 =
     \<lparr>success = False, file_path = ''bad.3mf'', output_path = ''t/bad.png'',
      error = Some ''Invalid 3MF file (not a valid ZIP)'', metadata = Empty\<rparr> \<and>
   generate_single_thumbnail sample_env ''bad.3mf'' ''t/bad.png'' 256 =
     \<lparr>success = False, file_path = ''bad.3mf'', output_path = ''t/bad.png'',
      error = Some ''Invalid 3MF file (not a valid ZIP)'', metadata = Absent\<rparr>"
proof -
  have z: "zip_open sample_env ''bad.3mf'' = Inl (BadZipFile ''File is not a zip file'')"
    by (simp add: sample_env_def)
  show ?thesis
    using invalid_archive [of "''bad.3mf''" sample_env "''File is not a zip file''" "''t/bad.png''" 256]
    by (simp add: ext_3mf z)
qed

subsection \<open>Choosing the object\<close>

lemma first_model_object_find:
  "first_model_object nss objs =
     List.find (\<lambda>obj. (get_attr obj ''type'' = None \<or> get_attr obj ''type'' = Some ''model'')
                       \<and> find_element obj ''mesh'' nss \<noteq> None) objs"
  by (induction objs) (auto split: option.splits)

lemma first_mesh_object_find:
  "first_mesh_object nss objs = List.find (\<lambda>obj. find_element obj ''mesh'' nss \<noteq> None) objs"
  by (induction objs) (auto split: option.splits)

lemma select_object_has_mesh:
  "select_object nss objs = Some obj \<Longrightarrow> obj \<in> set objs \<and> find_element obj ''mesh'' nss \<noteq> None"
  by (auto simp add: select_object_def first_model_object_find first_mesh_object_find
      find_Some_iff split: option.splits)

lemma sample_has_mesh:
  "find_element support_object ''mesh'' cand_d \<noteq> None"
  "find_element model_object ''mesh'' cand_d \<noteq> None"
  "find_element component_object ''mesh'' cand_d = None"
  by code_simp+

lemma sample_selection_runs:
  "load_3mf_mesh (archive_env (model_doc [support_object, model_object])) ''part.3mf''
     = Inr [((0, 1, 0), (1, 0, 0), (0, 0, 0))]"
  "load_3mf_mesh (archive_env (model_doc [support_object])) ''part.3mf''
     = Inr [((0, 0, 0), (1, 0, 0), (0, 1, 0))]"
  "load_3mf_mesh (archive_env (model_doc [component_object])) ''part.3mf''
     = Inl (Exception ''Failed to parse 3MF file: No object with mesh found in 3MF file'')"
  by code_simp+

lemma sample_types:
  "get_attr support_object ''type'' = Some ''support''"
  "get_attr model_object ''type'' = Some ''model''"
  "get_attr component_object ''type'' = None"
  by (simp_all add: get_attr_def support_object_def model_object_def component_object_def)

text \<open>
  Claim C3. Among the objects found under \<^verbatim>\<open>resources\<close>, the loader takes the first one
  in document order whose \<^verbatim>\<open>type\<close> attribute is missing or \<^verbatim>\<open>model\<close> and which has a
  \<^verbatim>\<open>mesh\<close> child; when there is none, the first one with a \<^verbatim>\<open>mesh\<close> child whatever its
  type. When no object has a \<^verbatim>\<open>mesh\<close> child the loader raises "No object with mesh
  found in 3MF file"; otherwise it goes on with the \<^verbatim>\<open>mesh\<close> child of the chosen object.
  A document whose \<^verbatim>\<open>resources\<close> element is found and holds an object is loaded
  through this choice.
\<close>

theorem object_selection:
  "select_object nss objects =
     (case List.find (\<lambda>obj. (get_attr obj ''type'' = None \<or> get_attr obj ''type'' = Some ''model'')
                             \<and> find_element obj ''mesh'' nss \<noteq> None) objects of
        Some obj \<Rightarrow> Some obj
      | None \<Rightarrow> List.find (\<lambda>obj. find_element obj ''mesh'' nss \<noteq> None) objects)
   \<and> ((\<forall>obj \<in> set objects. find_element obj ''mesh'' nss = None) \<longrightarrow>
        mesh_of_objects E nss objects = Inl (Exception ''No object with mesh found in 3MF file''))
   \<and> (\<forall>obj. select_object nss objects = Some obj \<longrightarrow>
        obj \<in> set objects \<and>
        (\<exists>mesh_node. find_element obj ''mesh'' nss = Some mesh_node \<and>
           mesh_of_objects E nss objects = mesh_of_node E nss mesh_node))
   \<and> (\<forall>resources.
        find_element root_node ''resources'' (possible_namespaces root_node) = Some resources \<and>
        find_all_elements resources ''object'' (possible_namespaces root_node) \<noteq> [] \<longrightarrow>
        load_model E root_node =
          mesh_of_objects E (possible_namespaces root_node)
            (find_all_elements resources ''object'' (possible_namespaces root_node)))"
proof (intro conjI allI impI)
  show "select_object nss objects =
     (case List.find (\<lambda>obj. (get_attr obj ''type'' = None \<or> get_attr obj ''type'' = Some ''model'')
                             \<and> find_element obj ''mesh'' nss \<noteq> None) objects of
        Some obj \<Rightarrow> Some obj
      | None \<Rightarrow> List.find (\<lambda>obj. find_element obj ''mesh'' nss \<noteq> None) objects)"
    unfolding select_object_def first_model_object_find first_mesh_object_find
    by (simp split: option.splits)
next
  assume none: "\<forall>obj \<in> set objects. find_element obj ''mesh'' nss = None"
  have "select_object nss objects = None"
  proof (cases "select_object nss objects")
    case (Some obj)
    with select_object_has_mesh [OF Some] none show ?thesis by auto
  qed simp
  then show "mesh_of_objects E nss objects = Inl (Exception ''No object with mesh found in 3MF file'')"
    by (simp add: mesh_of_objects_def)
next
  fix obj assume sel: "select_object nss objects = Some obj"
  then show "obj \<in> set objects" using select_object_has_mesh by blast
  from select_object_has_mesh [OF sel] obtain mesh_node
    where "find_element obj ''mesh'' nss = Some mesh_node" by auto
  with sel show "\<exists>mesh_node. find_element obj ''mesh'' nss = Some mesh_node \<and>
           mesh_of_objects E nss objects = mesh_of_node E nss mesh_node"
    by (simp add: mesh_of_objects_def)
next
  fix resources
  assume "find_element root_node ''resources'' (possible_namespaces root_node) = Some resources \<and>
        find_all_elements resources ''object'' (possible_namespaces root_node) \<noteq> []"
  then show "load_model E root_node =
          mesh_of_objects E (possible_namespaces root_node)
            (find_all_elements resources ''object'' (possible_namespaces root_node))"
    by (simp add: load_model_def Let_def)
qed

theorem object_selection_witness:
  "select_object cand_d [support_object, model_object] = Some model_object \<and>
   load_3mf_mesh (archive_env (model_doc [support_object, model_object])) ''part.3mf''
     = Inr [((0, 1, 0), (1, 0, 0), (0, 0, 0))] \<and>
   select_object cand_d [support_object] = Some support_object \<and>
   load_3mf_mesh (archive_env (model_doc [support_object])) ''part.3mf''
     = Inr [((0, 0, 0), (1, 0, 0), (0, 1, 0))] \<and>
   find_element component_object ''mesh'' cand_d = None \<and>
   mesh_of_objects sample_env cand_d [component_object]
     = Inl (Exception ''No object with mesh found in 3MF file'') \<and>
   load_3mf_mesh (archive_env (model_doc [component_object])) ''part.3mf''
     = Inl (Exception ''Failed to parse 3MF file: No object with mesh found in 3MF file'')"
  using object_selection [of cand_d "[support_object, model_object]" sample_env]
    object_selection [of cand_d "[support_object]" sample_env]
    object_selection [of cand_d "[component_object]" sample_env]
  by (simp add: sample_has_mesh sample_types sample_selection_runs del: find_element.simps)

subsection \<open>Fields of a result\<close>











subsection \<open>Triangle indices\<close>

lemma np_row_out:
  "i < - int (length vs) \<or> int (length vs) \<le> i \<Longrightarrow>
   np_row vs i = Inl (Exception (index_error_text i (length vs)))"
  by (auto simp add: np_row_def Let_def)

lemma np_row_in:
  assumes "- int (length vs) \<le> i" and "i < int (length vs)"
  shows "np_row vs i = Inr (vs ! nat (i mod int (length vs)))"
proof (cases "0 \<le> i")
  case True
  with assms show ?thesis by (simp add: np_row_def Let_def)
next
  case False
  with assms have "i mod int (length vs) = int (length vs) + i"
    by (smt (verit) mod_add_self1 mod_pos_pos_trivial)
  with False assms show ?thesis by (simp add: np_row_def Let_def)
qed

lemma face_vectors_find:
  "face_vectors vs f =
     (case List.find (\<lambda>i. i < - int (length vs) \<or> int (length vs) \<le> i) (face_indices [f]) of
        Some i \<Rightarrow> Inl (Exception (index_error_text i (length vs)))
      | None \<Rightarrow> Inr (wrapped vs f))"
proof -
  obtain a b c where f: "f = (a, b, c)" by (cases f)
  show ?thesis
    unfolding f face_vectors_def face_indices_def wrapped_def
    by (auto simp add: and_then_def np_row_out np_row_in)
qed

lemma face_indices_Cons: "face_indices (f # fs) = face_indices [f] @ face_indices fs"
  by (simp add: face_indices_def)

lemma find_append:
  "List.find P (xs @ ys) = (case List.find P xs of Some x \<Rightarrow> Some x | None \<Rightarrow> List.find P ys)"
  by (induction xs) auto

lemma fill_vectors_find:
  "fill_vectors vs fs =
     (case List.find (\<lambda>i. i < - int (length vs) \<or> int (length vs) \<le> i) (face_indices fs) of
        Some i \<Rightarrow> Inl (Exception (index_error_text i (length vs)))
      | None \<Rightarrow> Inr (map (wrapped vs) fs))"
proof (induction fs)
  case Nil
  show ?case by (simp add: face_indices_def)
next
  case (Cons f fs)
  show ?case
    unfolding fill_vectors.simps Cons.IH face_vectors_find face_indices_Cons [of f fs] find_append
    by (simp add: and_then_def split: option.splits)
qed

lemma mesh_of_node_staged:
  assumes "read_vertices E nss mesh_node = Inr vertices" and "vertices \<noteq> []"
    and "read_faces E nss mesh_node = Inr faces"
  shows "mesh_of_node E nss mesh_node =
     (if faces = [] then Inl (Exception ''No triangles found in 3MF mesh'')
      else build_mesh E vertices faces)"
  using assms by (simp add: mesh_of_node_def and_then_def)

lemma load_3mf_mesh_wraps:
  "open_model E path = Inl (Exception msg) \<Longrightarrow>
   load_3mf_mesh E path = Inl (Exception (''Failed to parse 3MF file: '' @ msg))"
  by (simp add: load_3mf_mesh_def)

text \<open>
  Claim C4, as the spec states it, asks that every index outside \<open>0..n-1\<close> makes the
  loader fail. The document below has three vertices and a triangle whose first index is
  \<open>-1\<close>; the loader returns a mesh, with the last vertex in that place.
\<close>

theorem triangle_indices_counterexample:
  "py_int (archive_env negative_index_doc) ''-1'' = Inr (- 1) \<and>
   load_3mf_mesh (archive_env negative_index_doc) ''part.3mf''
     = Inr [((0, 1, 0), (0, 0, 0), (1, 0, 0))]"
  by code_simp

text \<open>
  Claim C4, amended. Let the vertex list parsed from the mesh element have \<open>n > 0\<close>
  entries. With no triangle the loader raises "No triangles found in 3MF mesh". If some
  index \<open>i\<close> of some triangle has \<open>i \<ge> n\<close> or \<open>i < - n\<close>, the loader raises and returns no
  mesh; when all indices fit in 64 bits the text names the first such index in the order
  of the document: "index i is out of bounds for axis 0 with size n". Indices from
  \<open>- n\<close> to \<open>-1\<close> are taken, counting from the end. The loader passes the text on with
  "Failed to parse 3MF file: " in front.
\<close>

theorem triangle_indices:
  "(read_vertices E nss mesh_node = Inr vertices \<and> vertices \<noteq> [] \<and>
    read_faces E nss mesh_node = Inr faces \<longrightarrow>
      (faces = [] \<longrightarrow>
         mesh_of_node E nss mesh_node = Inl (Exception ''No triangles found in 3MF mesh'')) \<and>
      ((\<exists>i \<in> set (face_indices faces). i < - int (length vertices) \<or> int (length vertices) \<le> i) \<longrightarrow>
         (\<exists>e. mesh_of_node E nss mesh_node = Inl e)) \<and>
      (list_all face_fits faces \<longrightarrow>
         mesh_of_node E nss mesh_node =
           (if faces = [] then Inl (Exception ''No triangles found in 3MF mesh'')
            else case List.find (\<lambda>i. i < - int (length vertices) \<or> int (length vertices) \<le> i)
                        (face_indices faces) of
                   Some i \<Rightarrow> Inl (Exception (index_error_text i (length vertices)))
                 | None \<Rightarrow> Inr (map (wrapped vertices) faces))))
   \<and> (\<forall>path msg. open_model E path = Inl (Exception msg) \<longrightarrow>
         load_3mf_mesh E path = Inl (Exception (''Failed to parse 3MF file: '' @ msg)))"
proof (intro conjI impI allI)
  assume "read_vertices E nss mesh_node = Inr vertices \<and> vertices \<noteq> [] \<and>
    read_faces E nss mesh_node = Inr faces"
  then have staged: "mesh_of_node E nss mesh_node =
     (if faces = [] then Inl (Exception ''No triangles found in 3MF mesh'')
      else build_mesh E vertices faces)"
    using mesh_of_node_staged by blast
  {
    assume "faces = []"
    with staged show "mesh_of_node E nss mesh_node = Inl (Exception ''No triangles found in 3MF mesh'')"
      by simp
  next
    assume out: "\<exists>i \<in> set (face_indices faces). i < - int (length vertices) \<or> int (length vertices) \<le> i"
    then have "List.find (\<lambda>i. i < - int (length vertices) \<or> int (length vertices) \<le> i)
        (face_indices faces) \<noteq> None"
      by (auto simp add: find_None_iff)
    then have "\<exists>e. build_mesh E vertices faces = Inl e"
      by (auto simp add: build_mesh_def fill_vectors_find)
    with staged show "\<exists>e. mesh_of_node E nss mesh_node = Inl e"
      by (cases "faces = []") simp_all
  next
    assume "list_all face_fits faces"
    with staged show "mesh_of_node E nss mesh_node =
           (if faces = [] then Inl (Exception ''No triangles found in 3MF mesh'')
            else case List.find (\<lambda>i. i < - int (length vertices) \<or> int (length vertices) \<le> i)
                        (face_indices faces) of
                   Some i \<Rightarrow> Inl (Exception (index_error_text i (length vertices)))
                 | None \<Rightarrow> Inr (map (wrapped vertices) faces))"
      by (simp add: build_mesh_def fill_vectors_find)
  }
next
  fix path msg assume "open_model E path = Inl (Exception msg)"
  then show "load_3mf_mesh E path = Inl (Exception (''Failed to parse 3MF file: '' @ msg))"
    by (rule load_3mf_mesh_wraps)
qed


lemma bad_index_stage:
  "read_vertices sample_env cand_d bad_index_mesh = Inr corner_points"
  "read_faces sample_env cand_d bad_index_mesh = Inr [(0, 1, 999)]"
  by code_simp+

lemma bad_index_run:
  "load_3mf_mesh (archive_env bad_index_doc) ''part.3mf''
     = Inl (Exception ''Failed to parse 3MF file: index 999 is out of bounds for axis 0 with size 8'')"
  by code_simp

lemma corner_points_length: "length corner_points = 8" "corner_points \<noteq> []"
  by (simp_all add: corner_points_def)

lemma index_999_text:
  "index_error_text 999 8 = ''index 999 is out of bounds for axis 0 with size 8''"
  by code_simp

theorem triangle_indices_witness:
  "read_vertices sample_env cand_d bad_index_mesh = Inr corner_points \<and>
   corner_points \<noteq> [] \<and> int (length corner_points) = 8 \<and>
   read_faces sample_env cand_d bad_index_mesh = Inr [(0, 1, 999)] \<and>
   list_all face_fits [(0, 1, 999)] \<and>
   mesh_of_node sample_env cand_d bad_index_mesh
     = Inl (Exception ''index 999 is out of bounds for axis 0 with size 8'') \<and>
   load_3mf_mesh (archive_env bad_index_doc) ''part.3mf''
     = Inl (Exception ''Failed to parse 3MF file: index 999 is out of bounds for axis 0 with size 8'')"
proof -
  have fits: "list_all face_fits [(0, 1, 999)]"
    by (simp add: face_fits_def fits_int64_def)
  have found: "List.find (\<lambda>i. i < - int (length corner_points) \<or> int (length corner_points) \<le> i)
      (face_indices [(0, 1, 999)]) = Some 999"
    by (simp add: face_indices_def corner_points_length)
  have "mesh_of_node sample_env cand_d bad_index_mesh
      = Inl (Exception (index_error_text 999 (length corner_points)))"
    using triangle_indices [of sample_env cand_d bad_index_mesh corner_points "[(0, 1, 999)]"]
      bad_index_stage corner_points_length(2) fits
    by (simp only: found) simp
  then show ?thesis
    using fits
    by (simp add: bad_index_stage corner_points_length index_999_text bad_index_run)
qed

subsection \<open>Normalization in exact arithmetic\<close>

lemma fold_min_le: "fold min xs (a :: real) \<le> a" and fold_min_mem: "x \<in> set xs \<Longrightarrow> fold min xs a \<le> x"
proof -
  have "fold min xs a \<le> a \<and> (\<forall>x \<in> set xs. fold min xs a \<le> x)"
  proof (induction xs arbitrary: a)
    case (Cons y ys)
    have "fold min ys (min y a) \<le> min y a" using Cons.IH by blast
    then show ?case using Cons.IH [of "min y a"] by auto
  qed simp
  then show "fold min xs a \<le> a" and "x \<in> set xs \<Longrightarrow> fold min xs a \<le> x" by auto
qed

lemma fold_max_ge: "(a :: real) \<le> fold max xs a" and fold_max_mem: "x \<in> set xs \<Longrightarrow> x \<le> fold max xs a"
proof -
  have "a \<le> fold max xs a \<and> (\<forall>x \<in> set xs. x \<le> fold max xs a)"
  proof (induction xs arbitrary: a)
    case (Cons y ys)
    have "max y a \<le> fold max ys (max y a)" using Cons.IH by blast
    then show ?case using Cons.IH [of "max y a"] by auto
  qed simp
  then show "a \<le> fold max xs a" and "x \<in> set xs \<Longrightarrow> x \<le> fold max xs a" by auto
qed

lemma mesh_min_lower:
  assumes "mesh_min m = Inr (lx, ly, lz)" and "(x, y, z) \<in> set (mesh_points m)"
  shows "lx \<le> x \<and> ly \<le> y \<and> lz \<le> z"
proof (cases "mesh_points m")
  case Nil
  with assms(2) show ?thesis by simp
next
  case (Cons p ps)
  with assms(1) have l: "lx = fold min (map fst ps) (fst p)"
    "ly = fold min (map (fst \<circ> snd) ps) (fst (snd p))"
    "lz = fold min (map (snd \<circ> snd) ps) (snd (snd p))"
    by (simp_all add: mesh_min_def)
  from assms(2) Cons consider "(x, y, z) = p" | "(x, y, z) \<in> set ps" by auto
  then show ?thesis
  proof cases
    case 1
    then have "fst p = x" "fst (snd p) = y" "snd (snd p) = z" by auto
    then show ?thesis unfolding l using fold_min_le by metis
  next
    case 2
    then have "x \<in> set (map fst ps)" "y \<in> set (map (fst \<circ> snd) ps)" "z \<in> set (map (snd \<circ> snd) ps)"
      by force+
    then show ?thesis unfolding l using fold_min_mem by blast
  qed
qed

lemma mesh_max_upper:
  assumes "mesh_max m = Inr (ux, uy, uz)" and "(x, y, z) \<in> set (mesh_points m)"
  shows "x \<le> ux \<and> y \<le> uy \<and> z \<le> uz"
proof (cases "mesh_points m")
  case Nil
  with assms(2) show ?thesis by simp
next
  case (Cons p ps)
  with assms(1) have u: "ux = fold max (map fst ps) (fst p)"
    "uy = fold max (map (fst \<circ> snd) ps) (fst (snd p))"
    "uz = fold max (map (snd \<circ> snd) ps) (snd (snd p))"
    by (simp_all add: mesh_max_def)
  from assms(2) Cons consider "(x, y, z) = p" | "(x, y, z) \<in> set ps" by auto
  then show ?thesis
  proof cases
    case 1
    then have "fst p = x" "fst (snd p) = y" "snd (snd p) = z" by auto
    then show ?thesis unfolding u using fold_max_ge by metis
  next
    case 2
    then have "x \<in> set (map fst ps)" "y \<in> set (map (fst \<circ> snd) ps)" "z \<in> set (map (snd \<circ> snd) ps)"
      by force+
    then show ?thesis unfolding u using fold_max_mem by blast
  qed
qed

lemma mesh_points_map_points:
  "mesh_points (map_points g m) = map g (mesh_points m)"
  by (induction m) (auto simp add: mesh_points_def map_points_def)

lemma scaled_within:
  fixes x l u h :: real
  assumes "l \<le> x" "x \<le> u" "0 < h" "u - l \<le> 2 * h"
  shows "- 1 \<le> (x - (l + u) / 2) / h \<and> (x - (l + u) / 2) / h \<le> 1"
proof -
  have "- h \<le> x - (l + u) / 2" "x - (l + u) / 2 \<le> h" using assms by (simp_all add: field_simps)
  then show ?thesis using assms(3) by (simp add: field_simps)
qed

text \<open>
  Over the reals, that is without rounding, every coordinate of the normalized mesh lies
  between \<open>-1\<close> and \<open>1\<close>, and a mesh whose extent is zero on all axes is moved to the origin
  without a division. The scripts compute in binary floating point, where the quotient
  is rounded; this lemma says nothing about the rounded values.
\<close>

lemma normalize_exact:
  assumes mn: "mesh_min m = Inr (lx, ly, lz)" and mx: "mesh_max m = Inr (ux, uy, uz)"
    and p: "(x, y, z) \<in> set (mesh_points (normalize m (lx, ly, lz) (ux, uy, uz)))"
  shows "- 1 \<le> x \<and> x \<le> 1 \<and> - 1 \<le> y \<and> y \<le> 1 \<and> - 1 \<le> z \<and> z \<le> 1"
    and "max (ux - lx) (max (uy - ly) (uz - lz)) = 0 \<Longrightarrow> (x, y, z) = (0, 0, 0)"
proof -
  let ?h = "max (ux - lx) (max (uy - ly) (uz - lz)) / 2"
  let ?c = "((lx + ux) / 2, (ly + uy) / 2, (lz + uz) / 2)"
  have norm: "normalize m (lx, ly, lz) (ux, uy, uz) =
      (if 0 < ?h then map_points (\<lambda>v. vdiv v ?h) (map_points (\<lambda>v. vsub v ?c) m)
       else map_points (\<lambda>v. vsub v ?c) m)"
    by (simp add: normalize_def Let_def vsub_def vadd_def vdiv_def)
  have bounds: "lx \<le> a \<and> a \<le> ux \<and> ly \<le> b \<and> b \<le> uy \<and> lz \<le> c \<and> c \<le> uz"
    if "(a, b, c) \<in> set (mesh_points m)" for a b c
    using mesh_min_lower [OF mn that] mesh_max_upper [OF mx that] by simp
  show "- 1 \<le> x \<and> x \<le> 1 \<and> - 1 \<le> y \<and> y \<le> 1 \<and> - 1 \<le> z \<and> z \<le> 1"
  proof (cases "0 < ?h")
    case True
    with p norm obtain a b c where abc: "(a, b, c) \<in> set (mesh_points m)"
      and xyz: "x = (a - (lx + ux) / 2) / ?h" "y = (b - (ly + uy) / 2) / ?h"
        "z = (c - (lz + uz) / 2) / ?h"
      by (auto simp add: mesh_points_map_points vsub_def vdiv_def)
    have "ux - lx \<le> 2 * ?h" "uy - ly \<le> 2 * ?h" "uz - lz \<le> 2 * ?h" by simp_all
    then show ?thesis
      unfolding xyz using bounds [OF abc] scaled_within True by blast
  next
    case False
    with p norm obtain a b c where abc: "(a, b, c) \<in> set (mesh_points m)"
      and xyz: "x = a - (lx + ux) / 2" "y = b - (ly + uy) / 2" "z = c - (lz + uz) / 2"
      by (auto simp add: mesh_points_map_points vsub_def)
    from bounds [OF abc] False have "ux = lx" "uy = ly" "uz = lz" "a = lx" "b = ly" "c = lz"
      by (auto simp add: max_def split: if_splits)
    then show ?thesis unfolding xyz by simp
  qed
  show "(x, y, z) = (0, 0, 0)" if zero: "max (ux - lx) (max (uy - ly) (uz - lz)) = 0"
  proof -
    from zero have h: "\<not> 0 < ?h" by simp
    with p norm obtain a b c where abc: "(a, b, c) \<in> set (mesh_points m)"
      and xyz: "x = a - (lx + ux) / 2" "y = b - (ly + uy) / 2" "z = c - (lz + uz) / 2"
      by (auto simp add: mesh_points_map_points vsub_def)
    from bounds [OF abc] zero have "ux = lx" "uy = ly" "uz = lz" "a = lx" "b = ly" "c = lz"
      by (auto simp add: max_def split: if_splits)
    then show ?thesis unfolding xyz by simp
  qed
qed

subsection \<open>Namespaces\<close>

lemma in_namespace_sel:
  "tag (in_namespace u e) = clark u (tag e)"
  "attrib (in_namespace u e) = attrib e"
  "children (in_namespace u e) = map (in_namespace u) (children e)"
  by (cases e; simp)+

lemma get_attr_in_namespace: "get_attr (in_namespace u e) k = get_attr e k"
  by (simp add: get_attr_def in_namespace_sel)

lemma plain_children: "plain p \<Longrightarrow> c \<in> set (children p) \<Longrightarrow> plain c"
  by (cases p) auto

lemma plain_tag: "plain p \<Longrightarrow> \<not> startswith (tag p) ''{''"
  by (cases p) auto

lemma not_wild: 
  assumes "uri_ok u" 
  shows "take 3 (clark u t) \<noteq> ''{*}''"
proof -
  from assms obtain c u' where u: "u = c # u'" by (cases u) (auto simp add: uri_ok_def)
  show ?thesis
  proof (cases u')
    case Nil
    with u assms show ?thesis by (auto simp add: uri_ok_def clark_def)
  next
    case (Cons d u'')
    with u assms show ?thesis by (auto simp add: uri_ok_def clark_def)
  qed
qed

lemma takeWhile_brace:
  "CHR ''}'' \<notin> set u \<Longrightarrow> takeWhile (\<lambda>c. c \<noteq> CHR ''}'') (u @ CHR ''}'' # x) = u"
  by (induction u) auto

lemma clark_inj:
  assumes "CHR ''}'' \<notin> set u" and "CHR ''}'' \<notin> set w"
  shows "(clark u x = clark w t) = (u = w \<and> x = t)"
proof
  assume "clark u x = clark w t"
  then have eq: "u @ CHR ''}'' # x = w @ CHR ''}'' # t" by (simp add: clark_def)
  then have "takeWhile (\<lambda>c. c \<noteq> CHR ''}'') (u @ CHR ''}'' # x)
      = takeWhile (\<lambda>c. c \<noteq> CHR ''}'') (w @ CHR ''}'' # t)" by simp
  then have "u = w" using assms by (simp add: takeWhile_brace)
  with eq show "u = w \<and> x = t" by simp
qed simp

lemma clark_not_plain: "startswith (clark u t) ''{''"
  by (simp add: clark_def startswith_def)

lemma matches_qualified:
  assumes "uri_ok w" and "CHR ''}'' \<notin> set u"
  shows "tag_matches (clark w t) (clark u x) = (w = u \<and> x = t)"
proof -
  have "CHR ''}'' \<notin> set w" using assms(1) by (simp add: uri_ok_def)
  with assms(2) have "(clark u x = clark w t) = (u = w \<and> x = t)"
    by (rule clark_inj)
  then show ?thesis
    using not_wild [OF assms(1), of t] by (auto simp add: tag_matches_def)
qed

lemma matches_qualified_plain:
  assumes "uri_ok w" and "\<not> startswith x ''{''"
  shows "\<not> tag_matches (clark w t) x"
  using not_wild [OF assms(1), of t] assms(2) clark_not_plain [of w t]
  by (auto simp add: tag_matches_def)

lemma matches_plain:
  assumes "\<not> startswith t ''{''"
  shows "tag_matches t x = (x = t)"
proof -
  have "take 3 t \<noteq> ''{*}''"
    using assms by (cases t) (auto simp add: startswith_def)
  then show ?thesis by (simp add: tag_matches_def)
qed

lemma find_map_inj:
  assumes "\<And>c. c \<in> set cs \<Longrightarrow> Q (f c) = P c"
  shows "List.find Q (map f cs) = map_option f (List.find P cs)"
  using assms by (induction cs) auto

lemma filter_map_inj:
  assumes "\<And>c. c \<in> set cs \<Longrightarrow> Q (f c) = P c"
  shows "filter Q (map f cs) = map f (filter P cs)"
  using assms by (induction cs) auto

lemma et_find_same_ns:
  assumes "uri_ok u" and "\<not> startswith t ''{''"
  shows "et_find (in_namespace u p) (clark u t) = map_option (in_namespace u) (et_find p t)"
    and "et_findall (in_namespace u p) (clark u t) = map (in_namespace u) (et_findall p t)"
proof -
  have u: "CHR ''}'' \<notin> set u" using assms(1) by (simp add: uri_ok_def)
  have m: "\<And>c. tag_matches (clark u t) (tag (in_namespace u c)) = tag_matches t (tag c)"
    unfolding in_namespace_sel matches_qualified [OF assms(1) u] matches_plain [OF assms(2)]
    by simp
  show "et_find (in_namespace u p) (clark u t) = map_option (in_namespace u) (et_find p t)"
    unfolding et_find_def in_namespace_sel by (rule find_map_inj) (rule m)
  show "et_findall (in_namespace u p) (clark u t) = map (in_namespace u) (et_findall p t)"
    unfolding et_findall_def in_namespace_sel by (rule filter_map_inj) (rule m)
qed

lemma et_find_other_ns:
  assumes "uri_ok w" and "CHR ''}'' \<notin> set u" and "w \<noteq> u"
  shows "et_find (in_namespace u p) (clark w t) = None"
    and "et_findall (in_namespace u p) (clark w t) = []"
  using matches_qualified [OF assms(1,2)] assms(3)
  by (auto simp add: et_find_def et_findall_def find_None_iff filter_empty_conv in_namespace_sel)

lemma et_find_no_ns:
  assumes "\<not> startswith t ''{''"
  shows "et_find (in_namespace u p) t = None"
    and "et_findall (in_namespace u p) t = []"
  using matches_plain [OF assms] assms clark_not_plain
  by (auto simp add: et_find_def et_findall_def find_None_iff filter_empty_conv in_namespace_sel)

lemma et_find_plain_children:
  assumes "uri_ok w" and "\<And>c. c \<in> set (children p) \<Longrightarrow> \<not> startswith (tag c) ''{''"
  shows "et_find p (clark w t) = None"
    and "et_findall p (clark w t) = []"
  using matches_qualified_plain [OF assms(1)] assms(2)
  by (auto simp add: et_find_def et_findall_def find_None_iff filter_empty_conv)


lemma uri_ok_known: "uri_ok ns_microsoft" "uri_ok ns_openxml"
  by (simp_all add: uri_ok_def ns_microsoft_def ns_openxml_def)

lemma qualify_Some: "uri_ok u \<Longrightarrow> qualify (Some u) t = clark u t"
  by (simp add: qualify_def uri_ok_def)

lemma qualify_None: "qualify None t = t"
  by (simp add: qualify_def)

lemma find_element_q:
  assumes "uri_ok u" and "\<not> startswith t ''{''"
  shows "find_element (in_namespace u p) t (cand_q u) = map_option (in_namespace u) (et_find p t)"
proof -
  have u: "CHR ''}'' \<notin> set u" using assms(1) by (simp add: uri_ok_def)
  note same = et_find_same_ns(1) [OF assms, of p]
  have other: "et_find (in_namespace u p) (clark w t) = None" if "uri_ok w" "et_find p t = None" for w
    using et_find_other_ns(1) [OF that(1) u, of p t] same that(2) by (cases "w = u") simp_all
  show ?thesis
  proof (cases "et_find p t")
    case None
    then show ?thesis
      unfolding cand_q_def find_element.simps qualify_Some [OF assms(1)]
        qualify_Some [OF uri_ok_known(1)] qualify_Some [OF uri_ok_known(2)] qualify_None
      by (simp add: other [OF assms(1)] other [OF uri_ok_known(1)] other [OF uri_ok_known(2)]
          et_find_no_ns(1) [OF assms(2)])
  next
    case (Some a)
    then show ?thesis
      unfolding cand_q_def find_element.simps qualify_Some [OF assms(1)]
      by (simp add: same)
  qed
qed

lemma find_all_elements_q:
  assumes "uri_ok u" and "\<not> startswith t ''{''"
  shows "find_all_elements (in_namespace u p) t (cand_q u) = map (in_namespace u) (et_findall p t)"
proof -
  have u: "CHR ''}'' \<notin> set u" using assms(1) by (simp add: uri_ok_def)
  note same = et_find_same_ns(2) [OF assms, of p]
  have other: "et_findall (in_namespace u p) (clark w t) = []" if "uri_ok w" "et_findall p t = []" for w
    using et_find_other_ns(2) [OF that(1) u, of p t] same that(2) by (cases "w = u") simp_all
  show ?thesis
  proof (cases "et_findall p t")
    case Nil
    then show ?thesis
      unfolding cand_q_def find_all_elements.simps qualify_Some [OF assms(1)]
        qualify_Some [OF uri_ok_known(1)] qualify_Some [OF uri_ok_known(2)] qualify_None
      by (simp add: other [OF assms(1)] other [OF uri_ok_known(1)] other [OF uri_ok_known(2)]
          et_find_no_ns(2) [OF assms(2)])
  next
    case (Cons a as)
    then show ?thesis
      unfolding cand_q_def find_all_elements.simps qualify_Some [OF assms(1)]
      by (simp add: same)
  qed
qed

lemma find_element_d:
  assumes "plain p"
  shows "find_element p t cand_d = et_find p t"
    and "find_all_elements p t cand_d = et_findall p t"
proof -
  have pc: "\<And>c. c \<in> set (children p) \<Longrightarrow> \<not> startswith (tag c) ''{''"
    using assms plain_children plain_tag by blast
  note none = et_find_plain_children [OF _ pc]
  show "find_element p t cand_d = et_find p t"
    unfolding cand_d_def find_element.simps
      qualify_Some [OF uri_ok_known(1)] qualify_Some [OF uri_ok_known(2)] qualify_None
    by (simp add: none(1) [OF uri_ok_known(1)] none(1) [OF uri_ok_known(2)] split: option.splits)
  show "find_all_elements p t cand_d = et_findall p t"
    unfolding cand_d_def find_all_elements.simps
      qualify_Some [OF uri_ok_known(1)] qualify_Some [OF uri_ok_known(2)] qualify_None
    by (simp add: none(2) [OF uri_ok_known(1)] none(2) [OF uri_ok_known(2)] split: list.splits)
qed

lemma strip_brace:
  assumes "uri_ok u"
  shows "strip_char CHR ''{'' (CHR ''{'' # u) = u"
proof -
  from assms obtain c u' where u: "u = c # u'" "c \<noteq> CHR ''{''"
    by (cases u) (auto simp add: uri_ok_def)
  from assms have "rev u \<noteq> []" "hd (rev u) \<noteq> CHR ''{''"
    by (simp_all add: uri_ok_def hd_rev)
  then have "dropWhile (\<lambda>x. x = CHR ''{'') (rev u) = rev u"
    by (cases "rev u") auto
  then show ?thesis using u by (simp add: strip_char_def)
qed

lemma possible_namespaces_q:
  assumes "uri_ok u"
  shows "possible_namespaces (in_namespace u d) = cand_q u"
proof -
  have "takeWhile (\<lambda>c. c \<noteq> CHR ''}'') (CHR ''{'' # u @ CHR ''}'' # tag d) = CHR ''{'' # u"
    using assms takeWhile_brace [of u "tag d"] by (simp add: uri_ok_def)
  then show ?thesis
    using strip_brace [OF assms]
    by (simp add: possible_namespaces_def root_namespace_def cand_q_def startswith_def
        in_namespace_sel clark_def)
qed

lemma possible_namespaces_d: "plain d \<Longrightarrow> possible_namespaces d = cand_d"
  using plain_tag [of d] by (simp add: possible_namespaces_def root_namespace_def cand_d_def)


lemma plain_found:
  assumes "plain p"
  shows "et_find p t = Some c \<Longrightarrow> plain c" and "c \<in> set (et_findall p t) \<Longrightarrow> plain c"
  using assms plain_children [of p c]
  by (auto simp add: et_find_def et_findall_def find_Some_iff)

lemma plain_literals:
  "\<not> startswith ''resources'' ''{''" "\<not> startswith ''object'' ''{''"
  "\<not> startswith ''mesh'' ''{''" "\<not> startswith ''vertices'' ''{''"
  "\<not> startswith ''vertex'' ''{''" "\<not> startswith ''triangles'' ''{''"
  "\<not> startswith ''triangle'' ''{''"
  by (simp_all add: startswith_def)

lemma parse_vertex_in_namespace: "parse_vertex E (in_namespace u v) = parse_vertex E v"
  by (simp add: parse_vertex_def float_attr_def get_attr_in_namespace)

lemma parse_vertex_elements_in_namespace:
  "parse_vertex_elements E (map (in_namespace u) vs) = parse_vertex_elements E vs"
  by (induction vs) (simp_all add: parse_vertex_in_namespace)

lemma parse_triangle_in_namespace: "parse_triangle E (in_namespace u t) = parse_triangle E t"
  by (simp add: parse_triangle_def int_attr_def get_attr_in_namespace)

lemma parse_triangle_elements_in_namespace:
  "parse_triangle_elements E (map (in_namespace u) ts) = parse_triangle_elements E ts"
  by (induction ts) (simp_all add: parse_triangle_in_namespace)

lemma read_vertices_in_namespace:
  assumes "uri_ok u" and "plain mn"
  shows "read_vertices E (cand_q u) (in_namespace u mn) = read_vertices E cand_d mn"
proof (cases "et_find mn ''vertices''")
  case None
  then show ?thesis
    by (simp add: read_vertices_def find_element_q [OF assms(1) plain_literals(4)]
        find_element_d(1) [OF assms(2)])
next
  case (Some vn)
  then have "plain vn" using plain_found(1) [OF assms(2)] by blast
  with Some show ?thesis
    by (simp add: read_vertices_def find_element_q [OF assms(1) plain_literals(4)]
        find_element_d(1) [OF assms(2)] find_all_elements_q [OF assms(1) plain_literals(5)]
        find_element_d(2) parse_vertex_elements_in_namespace)
qed

lemma read_faces_in_namespace:
  assumes "uri_ok u" and "plain mn"
  shows "read_faces E (cand_q u) (in_namespace u mn) = read_faces E cand_d mn"
proof (cases "et_find mn ''triangles''")
  case None
  then show ?thesis
    by (simp add: read_faces_def find_element_q [OF assms(1) plain_literals(6)]
        find_element_d(1) [OF assms(2)])
next
  case (Some tn)
  then have "plain tn" using plain_found(1) [OF assms(2)] by blast
  with Some show ?thesis
    by (simp add: read_faces_def find_element_q [OF assms(1) plain_literals(6)]
        find_element_d(1) [OF assms(2)] find_all_elements_q [OF assms(1) plain_literals(7)]
        find_element_d(2) parse_triangle_elements_in_namespace)
qed

lemma mesh_of_node_in_namespace:
  assumes "uri_ok u" and "plain mn"
  shows "mesh_of_node E (cand_q u) (in_namespace u mn) = mesh_of_node E cand_d mn"
  unfolding mesh_of_node_def read_vertices_in_namespace [OF assms]
    read_faces_in_namespace [OF assms]
  by (rule refl)

lemma has_mesh_in_namespace:
  assumes "uri_ok u" and "plain obj"
  shows "find_element (in_namespace u obj) ''mesh'' (cand_q u)
           = map_option (in_namespace u) (find_element obj ''mesh'' cand_d)"
  by (simp add: find_element_q [OF assms(1) plain_literals(3)] find_element_d(1) [OF assms(2)])

lemma first_model_object_in_namespace:
  assumes "uri_ok u"
  shows "(\<forall>obj \<in> set objs. plain obj) \<Longrightarrow>
     first_model_object (cand_q u) (map (in_namespace u) objs)
       = map_option (in_namespace u) (first_model_object cand_d objs)"
  by (induction objs)
    (simp_all add: has_mesh_in_namespace [OF assms] get_attr_in_namespace split: option.splits)

lemma first_mesh_object_in_namespace:
  assumes "uri_ok u"
  shows "(\<forall>obj \<in> set objs. plain obj) \<Longrightarrow>
     first_mesh_object (cand_q u) (map (in_namespace u) objs)
       = map_option (in_namespace u) (first_mesh_object cand_d objs)"
  by (induction objs)
    (simp_all add: has_mesh_in_namespace [OF assms] split: option.splits)

lemma select_object_in_namespace:
  assumes "uri_ok u" and "\<forall>obj \<in> set objs. plain obj"
  shows "select_object (cand_q u) (map (in_namespace u) objs)
       = map_option (in_namespace u) (select_object cand_d objs)"
  by (simp add: select_object_def first_model_object_in_namespace [OF assms]
      first_mesh_object_in_namespace [OF assms] split: option.splits)

lemma mesh_of_objects_in_namespace:
  assumes "uri_ok u" and "\<forall>obj \<in> set objs. plain obj"
  shows "mesh_of_objects E (cand_q u) (map (in_namespace u) objs) = mesh_of_objects E cand_d objs"
proof (cases "select_object cand_d objs")
  case None
  then show ?thesis
    by (simp add: mesh_of_objects_def select_object_in_namespace [OF assms])
next
  case (Some obj)
  then have obj: "plain obj" using select_object_has_mesh [OF Some] assms(2) by blast
  show ?thesis
  proof (cases "find_element obj ''mesh'' cand_d")
    case None
    with Some show ?thesis
      by (simp add: mesh_of_objects_def select_object_in_namespace [OF assms]
          has_mesh_in_namespace [OF assms(1) obj])
  next
    case (Some mn)
    then have "plain mn"
      using plain_found(1) [OF obj] by (simp add: find_element_d(1) [OF obj])
    with Some \<open>select_object cand_d objs = Some obj\<close> show ?thesis
      by (simp add: mesh_of_objects_def select_object_in_namespace [OF assms]
          has_mesh_in_namespace [OF assms(1) obj] mesh_of_node_in_namespace [OF assms(1)])
  qed
qed

lemma load_model_in_namespace:
  assumes "uri_ok u" and "plain d"
  shows "load_model E (in_namespace u d) = load_model E d"
proof (cases "et_find d ''resources''")
  case None
  then show ?thesis
    by (simp add: load_model_def possible_namespaces_q [OF assms(1)]
        possible_namespaces_d [OF assms(2)] find_element_q [OF assms(1) plain_literals(1)]
        find_element_d(1) [OF assms(2)])
next
  case (Some res)
  then have res: "plain res" using plain_found(1) [OF assms(2)] by blast
  then have objs: "\<forall>obj \<in> set (et_findall res ''object''). plain obj"
    using plain_found(2) by blast
  from Some show ?thesis
    by (simp add: load_model_def possible_namespaces_q [OF assms(1)]
        possible_namespaces_d [OF assms(2)] find_element_q [OF assms(1) plain_literals(1)]
        find_element_d(1) [OF assms(2)] find_all_elements_q [OF assms(1) plain_literals(2)]
        find_element_d(2) [OF res] mesh_of_objects_in_namespace [OF assms(1) objs] Let_def)
qed

lemma find_element_first:
  "find_element p t nss =
     (case List.find (\<lambda>ns. et_find p (qualify ns t) \<noteq> None) nss of
        None \<Rightarrow> None
      | Some ns \<Rightarrow> et_find p (qualify ns t))"
  by (induction nss) (auto split: option.splits)

lemma find_all_elements_first:
  "find_all_elements p t nss =
     (case List.find (\<lambda>ns. et_findall p (qualify ns t) \<noteq> []) nss of
        None \<Rightarrow> []
      | Some ns \<Rightarrow> et_findall p (qualify ns t))"
  by (induction nss) (auto split: list.splits)

text \<open>
  Claim C6. The candidates are, in this order, the namespace of the root element (none
  when its tag has no namespace part), the Microsoft core namespace, the OpenXML core
  namespace and no namespace. A lookup returns what the first candidate in the list
  finds among the children, and nothing when no candidate finds a child. A document
  without namespace and the same document with every element in the Microsoft or in the
  OpenXML namespace give the same result: the same mesh or the same exception.
\<close>

theorem namespace_probing:
  "possible_namespaces root_node
     = [root_namespace root_node, Some ns_microsoft, Some ns_openxml, None] \<and>
   find_element parent t nss =
     (case List.find (\<lambda>ns. et_find parent (qualify ns t) \<noteq> None) nss of
        None \<Rightarrow> None
      | Some ns \<Rightarrow> et_find parent (qualify ns t)) \<and>
   find_all_elements parent t nss =
     (case List.find (\<lambda>ns. et_findall parent (qualify ns t) \<noteq> []) nss of
        None \<Rightarrow> []
      | Some ns \<Rightarrow> et_findall parent (qualify ns t)) \<and>
   (plain doc \<longrightarrow>
      load_model E (in_namespace ns_microsoft doc) = load_model E doc \<and>
      load_model E (in_namespace ns_openxml doc) = load_model E doc)"
  using find_element_first [of parent t nss] find_all_elements_first [of parent t nss]
    load_model_in_namespace [OF uri_ok_known(1), of doc E]
    load_model_in_namespace [OF uri_ok_known(2), of doc E]
  by (simp add: possible_namespaces_def)

lemma sample_doc_plain: "plain (model_doc [model_object])"
  by code_simp

lemma sample_doc_mesh:
  "load_model sample_env (model_doc [model_object]) = Inr [((0, 1, 0), (1, 0, 0), (0, 0, 0))]"
  by code_simp

theorem namespace_probing_witness:
  "plain (model_doc [model_object]) \<and>
   load_model sample_env (model_doc [model_object]) = Inr [((0, 1, 0), (1, 0, 0), (0, 0, 0))] \<and>
   load_model sample_env (in_namespace ns_microsoft (model_doc [model_object]))
     = Inr [((0, 1, 0), (1, 0, 0), (0, 0, 0))] \<and>
   load_model sample_env (in_namespace ns_openxml (model_doc [model_object]))
     = Inr [((0, 1, 0), (1, 0, 0), (0, 0, 0))]"
  using namespace_probing [where doc = "model_doc [model_object]" and E = sample_env]
  by (simp add: sample_doc_plain sample_doc_mesh)


subsection \<open>Batches\<close>

lemma collect_eq:
  "collect E P stream futs (rs, n, printed) =
     (rs @ map (job_outcome E P) futs,
      n + int (length (filter success (map (job_outcome E P) futs))),
      printed @ (if stream then map ResultLine (map (job_outcome E P) futs) else []))"
  by (induction futs arbitrary: rs n printed)
    (auto simp add: job_outcome_def Let_def split: sum.splits)




lemma process_batch_eq:
  "0 < max_workers \<Longrightarrow>
   process_batch E P jobs max_workers stream =
     (let rs = map (job_outcome E P) (as_completed (completion P) (enumerate 0 jobs));
          summary = \<lparr>batch_success = True, total = int (length jobs),
                     succeeded = int (length (filter success rs)),
                     failed = int (length jobs) - int (length (filter success rs)),
                     results = rs\<rparr>
      in Inr (summary, if stream then map ResultLine rs @ [SummaryLine summary] else []))"
  by (simp add: process_batch_def collect_eq Let_def)

lemma process_batch_refused:
  "max_workers \<le> 0 \<Longrightarrow>
   process_batch E P jobs max_workers stream
     = Inl (Exception ''max_workers must be greater than 0'')"
  by (simp add: process_batch_def)





text \<open>
  Claim C10. For the same jobs, worker count and run of the pool, \<^verbatim>\<open>process_batch\<close>
  returns the same summary, or raises the same exception, with and without streaming.
  Without streaming nothing is printed; with streaming one line is printed for each
  result, in the order of \<open>results\<close>, and then one line for the summary.
\<close>

theorem streaming_keeps_summary:
  "map_sum id fst (process_batch E P jobs max_workers True)
     = map_sum id fst (process_batch E P jobs max_workers False) \<and>
   map_sum id snd (process_batch E P jobs max_workers False)
     = map_sum id (\<lambda>x. []) (process_batch E P jobs max_workers False) \<and>
   map_sum id snd (process_batch E P jobs max_workers True)
     = map_sum id (\<lambda>x. map ResultLine (results (fst x)) @ [SummaryLine (fst x)])
         (process_batch E P jobs max_workers False)"
proof (cases "0 < max_workers")
  case True
  show ?thesis
    unfolding process_batch_eq [OF True] by (simp add: Let_def)
next
  case False
  then have "max_workers \<le> 0" by simp
  then show ?thesis
    unfolding process_batch_refused [OF \<open>max_workers \<le> 0\<close>] by simp
qed

end
